theory Spec2Isabelle
  imports Complex_Main "HOL-Library.Multiset" "HOL-Library.List_Lexorder"
begin

section \<open>Data model\<close>

text \<open>
  Python floats are modelled by exact reals: every arithmetic step of the source is read
  without rounding. Where the source itself produces the IEEE value NaN (the diagonal of
  the dominance matrix, the mean of an empty slice), and where an input may hold it (the
  array given to the dominance engine), a cell is a \<open>pyfloat\<close>: NaN or a number. The
  cells of the tables and of the draw matrices are numbers. The two infinities compare
  like numbers and are left out.
\<close>

datatype pyfloat = NaN | Fl real

text \<open>IEEE comparison: every comparison with NaN is false, also \<open>NaN == NaN\<close>.\<close>

fun float_gt :: "pyfloat \<Rightarrow> pyfloat \<Rightarrow> bool" where
  "float_gt (Fl x) (Fl y) = (x > y)"
| "float_gt _ _ = False"

fun float_eq :: "pyfloat \<Rightarrow> pyfloat \<Rightarrow> bool" where
  "float_eq (Fl x) (Fl y) = (x = y)"
| "float_eq _ _ = False"

text \<open>
  A numpy array is its shape and its elements in row-major order. A well-formed array
  holds as many elements as its shape announces.
\<close>

datatype 'a ndarray = NDArray (shape: "nat list") (flat: "'a list")

definition ndim :: "'a ndarray \<Rightarrow> nat" where
  "ndim a = length (shape a)"

definition wf_ndarray :: "'a ndarray \<Rightarrow> bool" where
  "wf_ndarray a \<longleftrightarrow> length (flat a) = prod_list (shape a)"

text \<open>Element \<open>a[s, i]\<close> and row \<open>a[s, :]\<close> of a 2-D array.\<close>

definition at2 :: "'a ndarray \<Rightarrow> nat \<Rightarrow> nat \<Rightarrow> 'a" where
  "at2 a s i = flat a ! (s * (shape a ! 1) + i)"

definition row2 :: "'a ndarray \<Rightarrow> nat \<Rightarrow> 'a list" where
  "row2 a s = map (at2 a s) [0..<shape a ! 1]"

definition rows2 :: "'a ndarray \<Rightarrow> 'a list list" where
  "rows2 a = map (row2 a) [0..<shape a ! 0]"

text \<open>\<open>np.vstack\<close> / a 2-D array built from its rows, with the column count given.\<close>

definition from_rows :: "nat \<Rightarrow> 'a list list \<Rightarrow> 'a ndarray" where
  "from_rows k rs = NDArray [length rs, k] (concat rs)"

datatype error =
    ShapeMismatch
  | MissingColumns "string set"
  | NoGroupKeys
  | KeyError
  | BadTrueParams
  | NumSimsNotPositive
  | Not2D
  | LabelsLength
  | ColumnStack
  | NonPositiveWeights nat
  | NotAligned
  | WeightsNotAligned
  | IndexError
  | UnpackError
  | EmptyRegressionInput
  | MissingCoefficients "string list"

section \<open>Dominance engine: \<open>prob_values_different\<close>\<close>

datatype label = IntLabel nat | StrLabel string

datatype slopes_arg = AsArray "pyfloat ndarray" | AsList "pyfloat list list"

record prob_frame =
  pf_index :: "label list"
  pf_columns :: "label list"
  pf_values :: "pyfloat list list"

text \<open>
  \<open>np.column_stack(cols)\<close> on 1-D arrays: the arrays become the columns of a 2-D array.
  numpy refuses an empty sequence and arrays of different lengths.
\<close>

definition column_stack :: "pyfloat list list \<Rightarrow> error + pyfloat ndarray" where
  "column_stack cols =
     (case cols of
        [] \<Rightarrow> Inl ColumnStack
      | c # cs \<Rightarrow>
          if \<exists>d \<in> set cs. length d \<noteq> length c then Inl ColumnStack
          else Inr (from_rows (length cols)
                      (map (\<lambda>s. map (\<lambda>col. col ! s) cols) [0..<length c])))"

text \<open>
  \<open>(arr[:, :, None] > arr[:, None, :]).mean(axis=0)\<close>: entry \<open>(i, j)\<close> is the mean over
  the draws \<open>s\<close> of the indicator \<open>arr[s, i] > arr[s, j]\<close>, a float comparison. The
  mean of an empty slice is NaN in numpy; HOL's \<open>x / 0 = 0\<close> must not stand in for it.
  \<open>count_eq\<close> counts the draws that tie the two values.
\<close>

definition count_gt :: "pyfloat ndarray \<Rightarrow> nat \<Rightarrow> nat \<Rightarrow> nat" where
  "count_gt arr i j = length (filter (\<lambda>s. float_gt (at2 arr s i) (at2 arr s j)) [0..<shape arr ! 0])"

definition count_eq :: "pyfloat ndarray \<Rightarrow> nat \<Rightarrow> nat \<Rightarrow> nat" where
  "count_eq arr i j = length (filter (\<lambda>s. float_eq (at2 arr s i) (at2 arr s j)) [0..<shape arr ! 0])"

definition mean_gt :: "pyfloat ndarray \<Rightarrow> nat \<Rightarrow> nat \<Rightarrow> pyfloat" where
  "mean_gt arr i j =
     (let num_sims = shape arr ! 0 in
      if num_sims = 0 then NaN else Fl (real (count_gt arr i j) / real num_sims))"

definition pairwise_probs :: "pyfloat ndarray \<Rightarrow> pyfloat list list" where
  "pairwise_probs arr =
     (let k = shape arr ! 1 in map (\<lambda>i. map (\<lambda>j. mean_gt arr i j) [0..<k]) [0..<k])"

text \<open>\<open>np.fill_diagonal(m, v)\<close> on a 2-D array, in place.\<close>

definition fill_diagonal :: "'a list list \<Rightarrow> 'a \<Rightarrow> 'a list list" where
  "fill_diagonal m v = map (\<lambda>i. (m ! i)[i := v]) [0..<length m]"

definition prob_values_different ::
  "slopes_arg \<Rightarrow> label list option \<Rightarrow> bool \<Rightarrow> error + prob_frame" where
  "prob_values_different slopes labels include_diagonal =
     (case (case slopes of
              AsArray a \<Rightarrow> if ndim a \<noteq> 2 then Inl Not2D else Inr a
            | AsList cols \<Rightarrow> column_stack cols) of
        Inl e \<Rightarrow> Inl e
      | Inr arr \<Rightarrow>
          let k = shape arr ! 1;
              labels' = (case labels of None \<Rightarrow> map IntLabel [0..<k] | Some l \<Rightarrow> l)
          in if length labels' \<noteq> k then Inl LabelsLength
             else
               let probs = pairwise_probs arr
               in Inr \<lparr> pf_index = labels', pf_columns = labels',
                        pf_values = (if include_diagonal then fill_diagonal probs (Fl (1/2))
                                     else fill_diagonal probs NaN) \<rparr>)"

definition unit_or_nan :: "pyfloat \<Rightarrow> bool" where
  "unit_or_nan x = (case x of NaN \<Rightarrow> True | Fl r \<Rightarrow> 0 \<le> r \<and> r \<le> 1)"

definition labels_fit :: "label list option \<Rightarrow> nat \<Rightarrow> bool" where
  "labels_fit labels k = (case labels of None \<Rightarrow> True | Some l \<Rightarrow> length l = k)"

section \<open>Market grouper and effect propagator: \<open>determine_effect_coeff\<close>\<close>

text \<open>
  A pandas DataFrame is its column names and its rows; a row gives the cell under a column
  name, and is only ever read under names that the code has checked (or that pandas would
  reject with a KeyError). Cells are finite numbers: the group keys of this repository are
  integer identifiers, so the rows that pandas drops for a missing key do not occur.
\<close>

type_synonym row = "string \<Rightarrow> real"

record dataframe =
  df_columns :: "string list"
  df_rows :: "row list"

definition group_key :: "string list \<Rightarrow> row \<Rightarrow> real list" where
  "group_key ks r = map r ks"

definition groups_of :: "string list \<Rightarrow> row list \<Rightarrow> real list list \<Rightarrow> row list list" where
  "groups_of ks rs keys = map (\<lambda>k. filter (\<lambda>r. group_key ks r = k) rs) keys"

text \<open>
  \<open>df.groupby(keys)\<close> sorts the groups by key (tuples compare lexicographically);
  \<open>df.groupby(keys, sort=False)\<close> yields them in order of first appearance. Within a
  group the rows keep the order of the table.
\<close>

definition first_seen :: "'a list \<Rightarrow> 'a list" where
  "first_seen xs = rev (remdups (rev xs))"

definition groupby_sorted :: "string list \<Rightarrow> row list \<Rightarrow> row list list" where
  "groupby_sorted ks rs = groups_of ks rs (sort (remdups (map (group_key ks) rs)))"

definition groupby_unsorted :: "string list \<Rightarrow> row list \<Rightarrow> row list list" where
  "groupby_unsorted ks rs = groups_of ks rs (first_seen (map (group_key ks) rs))"

definition dot :: "real list \<Rightarrow> real list \<Rightarrow> real" where
  "dot xs ys = sum_list (map2 (*) xs ys)"

text \<open>\<open>S_total_by_bin = (s[:, None] * I).sum(axis=0)\<close>\<close>

definition S_total_by_bin :: "string list \<Rightarrow> row list \<Rightarrow> real list" where
  "S_total_by_bin hub_dummy_cols g =
     map (\<lambda>c. sum_list (map (\<lambda>r. r ''MarketShare'' * r c) g)) hub_dummy_cols"

text \<open>\<open>comp_1 = 2.0 * (s - hhi)\<close>\<close>

definition comp_1 :: "row list \<Rightarrow> real list" where
  "comp_1 g = map (\<lambda>r. 2 * (r ''MarketShare'' - r ''HHI'')) g"

text \<open>\<open>others_by_bin = S_total_by_bin[None, :] - (s[:, None] * I)\<close>\<close>

definition others_by_bin :: "string list \<Rightarrow> row list \<Rightarrow> real list list" where
  "others_by_bin hub_dummy_cols g =
     map (\<lambda>r. map2 (\<lambda>t c. t - r ''MarketShare'' * r c)
                (S_total_by_bin hub_dummy_cols g) hub_dummy_cols) g"

text \<open>\<open>comp_2 = (random_sample @ others_by_bin.T).T\<close>: one row per airline, one column per draw.\<close>

definition comp_2 :: "real ndarray \<Rightarrow> string list \<Rightarrow> row list \<Rightarrow> real list list" where
  "comp_2 random_sample hub_dummy_cols g =
     map (\<lambda>others. map (\<lambda>draw. dot draw others) (rows2 random_sample))
       (others_by_bin hub_dummy_cols g)"

text \<open>\<open>effect_mat = comp_1[:, None] * comp_2\<close>\<close>

definition effect_mat :: "real ndarray \<Rightarrow> string list \<Rightarrow> row list \<Rightarrow> real list list" where
  "effect_mat random_sample hub_dummy_cols g =
     map2 (\<lambda>c1 c2row. map (\<lambda>x. c1 * x) c2row) (comp_1 g) (comp_2 random_sample hub_dummy_cols g)"

text \<open>The five lists the loop appends to, one block per market that takes part.\<close>

record accum =
  effect_list :: "real list list list"
  monthly_flights_acc :: "real list list"
  market_share_acc :: "real list list"
  airport_hub_size_acc :: "real list list"
  group_id_first_key_acc :: "real list list"

definition accum_empty :: accum where
  "accum_empty = \<lparr> effect_list = [], monthly_flights_acc = [], market_share_acc = [],
                   airport_hub_size_acc = [], group_id_first_key_acc = [] \<rparr>"

definition append_group :: "real ndarray \<Rightarrow> string \<Rightarrow> string list \<Rightarrow> row list \<Rightarrow> accum \<Rightarrow> accum" where
  "append_group random_sample key0 hub_dummy_cols g acc =
     \<lparr> effect_list = effect_list acc @ [effect_mat random_sample hub_dummy_cols g],
       monthly_flights_acc = monthly_flights_acc acc @ [map (\<lambda>r. r ''MonthlyFlights'') g],
       market_share_acc = market_share_acc acc @ [map (\<lambda>r. r ''MarketShare'') g],
       airport_hub_size_acc = airport_hub_size_acc acc @ [map (\<lambda>r. r ''AirportHubSize'') g],
       group_id_first_key_acc = group_id_first_key_acc acc @ [map (\<lambda>r. r key0) g] \<rparr>"

fun effect_loop :: "real ndarray \<Rightarrow> string \<Rightarrow> string list \<Rightarrow> row list list \<Rightarrow> accum \<Rightarrow> accum" where
  "effect_loop random_sample key0 hub_dummy_cols [] acc = acc"
| "effect_loop random_sample key0 hub_dummy_cols (g # gs) acc =
     (if length g \<le> 1 then effect_loop random_sample key0 hub_dummy_cols gs acc
      else effect_loop random_sample key0 hub_dummy_cols gs
             (append_group random_sample key0 hub_dummy_cols g acc))"

record effect_out =
  monthly_flights :: "real list"
  market_share :: "real list"
  airport_hub_size :: "real list"
  effect :: "real ndarray"
  group_id_first_key :: "real list"

definition required_columns :: "string list \<Rightarrow> string list \<Rightarrow> string set" where
  "required_columns group_keys hub_dummy_cols =
     set group_keys \<union> {''MarketShare'', ''HHI'', ''MonthlyFlights'', ''AirportHubSize''}
       \<union> set hub_dummy_cols"

text \<open>
  The surviving (second, parameterized) definition of \<open>determine_effect_coeff\<close>. The
  checks come in the source's order: the shape of the draw matrix, the required columns,
  then pandas' own refusal of an empty key list.
\<close>

definition determine_effect_coeff ::
  "dataframe \<Rightarrow> real ndarray \<Rightarrow> string list \<Rightarrow> string list \<Rightarrow> error + effect_out" where
  "determine_effect_coeff df_inputs random_sample group_keys hub_dummy_cols =
     (if ndim random_sample \<noteq> 2 \<or> shape random_sample ! 1 \<noteq> length hub_dummy_cols
      then Inl ShapeMismatch
      else
        let missing = required_columns group_keys hub_dummy_cols - set (df_columns df_inputs)
        in if missing \<noteq> {} then Inl (MissingColumns missing)
           else
             (case group_keys of
                [] \<Rightarrow> Inl NoGroupKeys
              | key0 # _ \<Rightarrow>
                  let acc = effect_loop random_sample key0 hub_dummy_cols
                              (groupby_sorted group_keys (df_rows df_inputs)) accum_empty
                  in if effect_list acc = []
                     then Inr \<lparr> monthly_flights = [], market_share = [], airport_hub_size = [],
                               effect = NDArray [0, shape random_sample ! 0] [],
                               group_id_first_key = [] \<rparr>
                     else Inr \<lparr> monthly_flights = concat (monthly_flights_acc acc),
                               market_share = concat (market_share_acc acc),
                               airport_hub_size = concat (airport_hub_size_acc acc),
                               effect = from_rows (shape random_sample ! 0)
                                          (concat (effect_list acc)),
                               group_id_first_key = concat (group_id_first_key_acc acc) \<rparr>))"

definition GROUP_KEYS :: "string list" where
  "GROUP_KEYS = [''OriginAirportID'', ''Year'', ''Month'']"

definition HUB_DUMMY_COLS :: "string list" where
  "HUB_DUMMY_COLS = [''AirlineHubSize_0'', ''AirlineHubSize_1'', ''AirlineHubSize_2'',
                     ''AirlineHubSize_3'']"

text \<open>A row given by its cells, for concrete tables.\<close>

definition mk_row :: "(string \<times> real) list \<Rightarrow> row" where
  "mk_row cells c = (case map_of cells c of Some v \<Rightarrow> v | None \<Rightarrow> 0)"

text \<open>
  The point-estimate variant \<open>determine_effect_coeff_true\<close>. It groups with
  \<open>sort=False\<close>, does not check the columns itself (pandas raises a KeyError where a
  missing column is first read: the group keys when grouping, the others inside the first
  market with more than one airline), and returns one dictionary per observation. The
  DataFrame built from these dictionaries is modelled by their list; built from no
  dictionary at all it has no column, not even \<open>effect\<close>.
\<close>

record true_row =
  tr_monthly_flights :: real
  tr_market_share :: real
  tr_airport_hub_size :: real
  tr_airline_hub_size :: real
  tr_hhi :: real
  tr_num_airlines :: nat
  tr_airport_id :: real
  tr_effect :: real

definition hub_cols :: "string list" where
  "hub_cols = [''AirlineHubSize_0'', ''AirlineHubSize_1'', ''AirlineHubSize_2'',
               ''AirlineHubSize_3'']"

definition total_hub_market_share :: "row list \<Rightarrow> real list" where
  "total_hub_market_share g =
     map (\<lambda>c. sum_list (map (\<lambda>r. r c * r ''MarketShare'') g)) hub_cols"

definition true_row_of :: "real list \<Rightarrow> row list \<Rightarrow> row \<Rightarrow> true_row" where
  "true_row_of true_params g r =
     (let comp_1 = 2 * (r ''MarketShare'' - r ''HHI'');
          own_hub_vector = map r hub_cols;
          other_airlines_market_share =
            map2 (\<lambda>t own. t - r ''MarketShare'' * own) (total_hub_market_share g) own_hub_vector;
          comp_2 = dot true_params other_airlines_market_share
      in \<lparr> tr_monthly_flights = r ''MonthlyFlights'',
           tr_market_share = r ''MarketShare'',
           tr_airport_hub_size = r ''AirportHubSize'',
           tr_airline_hub_size = r ''AirlineHubSize'',
           tr_hhi = r ''HHI'',
           tr_num_airlines = length g,
           tr_airport_id = r ''OriginAirportID'',
           tr_effect = comp_1 * comp_2 \<rparr>)"

definition true_columns_read :: "string set" where
  "true_columns_read =
     set hub_cols \<union> {''MarketShare'', ''HHI'', ''MonthlyFlights'', ''AirportHubSize'',
                      ''AirlineHubSize'', ''OriginAirportID''}"

fun true_loop ::
  "real list \<Rightarrow> string list \<Rightarrow> row list list \<Rightarrow> true_row list \<Rightarrow> error + true_row list" where
  "true_loop true_params columns [] results = Inr results"
| "true_loop true_params columns (g # gs) results =
     (if length g \<le> 1 then true_loop true_params columns gs results
      else if \<not> true_columns_read \<subseteq> set columns then Inl KeyError
      else true_loop true_params columns gs (results @ map (true_row_of true_params g) g))"

definition determine_effect_coeff_true :: "real ndarray \<Rightarrow> dataframe \<Rightarrow> error + true_row list" where
  "determine_effect_coeff_true true_params airport_airline_market =
     (let tp = flat true_params
      in if length tp \<noteq> 4 then Inl BadTrueParams
         else if \<not> set [''OriginAirportID'', ''Year'', ''Month'']
                    \<subseteq> set (df_columns airport_airline_market)
         then Inl KeyError
         else true_loop tp (df_columns airport_airline_market)
                (groupby_unsorted [''OriginAirportID'', ''Year'', ''Month'']
                   (df_rows airport_airline_market)) [])"

text \<open>Column \<open>a[:, j]\<close> of a 2-D array.\<close>

definition column2 :: "'a ndarray \<Rightarrow> nat \<Rightarrow> 'a list" where
  "column2 a j = map (\<lambda>s. at2 a s j) [0..<shape a ! 0]"

section \<open>Coefficient sampler: \<open>basic_random_sample\<close> and \<open>hub_random_sample\<close>\<close>

text \<open>
  The two files are taken as pandas has read them: the coefficient file as a table, the
  covariance file as its row labels (the column \<open>Unnamed: 0\<close>, absent when the file has
  no such column), its column names and its cells. Row labels are taken to be distinct.

  numpy's random generator is not code of this repository, so it is a parameter: how an
  integer seed becomes a generator state, and how a state yields the joint draws (one row
  per draw), either of which may fail. \<open>default_rng(None)\<close> takes its state from the
  operating system; that state is an argument of the model, \<open>entropy\<close>, so that two
  invocations may differ in it and in nothing else.
\<close>

record cov_table =
  cov_index :: "string list option"
  cov_columns :: "string list"
  cov_cell :: "string \<Rightarrow> string \<Rightarrow> real"

datatype mvn_method = SVD | Cholesky

record 'g numpy_random =
  seed_state :: "int \<Rightarrow> error + 'g"
  multivariate_normal ::
    "'g \<Rightarrow> real list \<Rightarrow> real list list \<Rightarrow> nat \<Rightarrow> mvn_method \<Rightarrow> error + real list list"

definition default_rng :: "'g numpy_random \<Rightarrow> 'g \<Rightarrow> int option \<Rightarrow> error + 'g" where
  "default_rng np entropy seed =
     (case seed of None \<Rightarrow> Inr entropy | Some s \<Rightarrow> seed_state np s)"

text \<open>\<open>mu = coef_df.loc[0, reg_vars]\<close>, after the check for missing columns.\<close>

definition read_mu :: "dataframe \<Rightarrow> string list \<Rightarrow> error + real list" where
  "read_mu coef_df reg_vars =
     (let missing = filter (\<lambda>v. v \<notin> set (df_columns coef_df)) reg_vars
      in if missing \<noteq> [] then Inl (MissingCoefficients missing)
         else (case df_rows coef_df of
                 [] \<Rightarrow> Inl KeyError
               | r0 # _ \<Rightarrow> Inr (map r0 reg_vars)))"

text \<open>\<open>Sigma = cov_df.set_index("Unnamed: 0").loc[reg_vars, reg_vars]\<close>\<close>

definition read_sigma :: "cov_table \<Rightarrow> string list \<Rightarrow> error + real list list" where
  "read_sigma cov_df reg_vars =
     (case cov_index cov_df of
        None \<Rightarrow> Inl KeyError
      | Some labels \<Rightarrow>
          if set reg_vars \<subseteq> set labels \<and> set reg_vars \<subseteq> set (cov_columns cov_df)
          then Inr (map (\<lambda>i. map (\<lambda>j. cov_cell cov_df i j) reg_vars) reg_vars)
          else Inl KeyError)"

definition basic_reg_vars :: "string list" where
  "basic_reg_vars = [''hhiorigin'', ''hhidest'']"

definition n_hub_sizes :: nat where
  "n_hub_sizes = 4"

definition basic_random_sample ::
  "'g numpy_random \<Rightarrow> 'g \<Rightarrow> dataframe \<Rightarrow> cov_table \<Rightarrow> int \<Rightarrow> int option
     \<Rightarrow> error + real ndarray \<times> real list" where
  "basic_random_sample np entropy coef_df cov_df num_sims seed =
     (if num_sims \<le> 0 then Inl NumSimsNotPositive
      else case read_mu coef_df basic_reg_vars of
        Inl e \<Rightarrow> Inl e
      | Inr mu \<Rightarrow>
      (case read_sigma cov_df basic_reg_vars of
        Inl e \<Rightarrow> Inl e
      | Inr Sigma' \<Rightarrow>
      (case default_rng np entropy seed of
        Inl e \<Rightarrow> Inl e
      | Inr rng \<Rightarrow>
      (case multivariate_normal np rng mu Sigma' (nat num_sims) SVD of
        Inl e \<Rightarrow> Inl e
      | Inr draws \<Rightarrow>
          let combined = map sum_list draws;
              random_sample = from_rows n_hub_sizes (map (replicate n_hub_sizes) combined);
              true_params = replicate n_hub_sizes (sum_list mu)
          in Inr (random_sample, true_params)))))"

definition hub_reg_vars :: "string list" where
  "hub_reg_vars = [''nonhubairlineconcorigin'', ''smallhubairlineconcorigin'',
     ''mediumhubairlineconcorigin'', ''largehubairlineconcorigin'',
     ''nonhubairlineconcdest'', ''smallhubairlineconcdest'',
     ''mediumhubairlineconcdest'', ''largehubairlineconcdest'']"

text \<open>
  \<open>draws[:, :4] + draws[:, 4:]\<close> and \<open>mu[:4] + mu[4:]\<close>: with eight entries per row the
  two slices have four entries each and are added entry by entry.
\<close>

definition hub_random_sample ::
  "'g numpy_random \<Rightarrow> 'g \<Rightarrow> dataframe \<Rightarrow> cov_table \<Rightarrow> int \<Rightarrow> int option
     \<Rightarrow> error + real ndarray \<times> real list" where
  "hub_random_sample np entropy coef_df cov_df num_sims seed =
     (if num_sims \<le> 0 then Inl NumSimsNotPositive
      else case read_mu coef_df hub_reg_vars of
        Inl e \<Rightarrow> Inl e
      | Inr mu \<Rightarrow>
      (case read_sigma cov_df hub_reg_vars of
        Inl e \<Rightarrow> Inl e
      | Inr Sigma' \<Rightarrow>
      (case default_rng np entropy seed of
        Inl e \<Rightarrow> Inl e
      | Inr rng \<Rightarrow>
      (case multivariate_normal np rng mu Sigma' (nat num_sims) Cholesky of
        Inl e \<Rightarrow> Inl e
      | Inr draws \<Rightarrow>
          let random_sample = from_rows 4 (map (\<lambda>d. map2 (+) (take 4 d) (drop 4 d)) draws);
              true_params = map2 (+) (take 4 mu) (drop 4 mu)
          in Inr (random_sample, true_params)))))"

text \<open>
  A stand-in generator for concrete runs: its state is an integer, and every draw is the
  mean shifted by the state.
\<close>

definition shift_sampler :: "int numpy_random" where
  "shift_sampler = \<lparr> seed_state = (\<lambda>s. if s < 0 then Inl ShapeMismatch else Inr s),
       multivariate_normal = (\<lambda>g mu Sigma n m. Inr (replicate n (map (\<lambda>x. x + of_int g) mu))) \<rparr>"

definition coef_file :: dataframe where
  "coef_file = \<lparr> df_columns = [''hhiorigin'', ''hhidest'', ''const''],
                 df_rows = [mk_row [(''hhiorigin'', 1.5), (''hhidest'', 0.5), (''const'', 3)]] \<rparr>"

definition cov_file :: cov_table where
  "cov_file = \<lparr> cov_index = Some [''hhiorigin'', ''hhidest'', ''const''],
                cov_columns = [''hhiorigin'', ''hhidest'', ''const''],
                cov_cell = (\<lambda>i j. if i = j then 1 else 0) \<rparr>"

section \<open>Hub-stratified regressor: \<open>find_slopes\<close>\<close>

text \<open>
  The fits of statsmodels and numpy's percentile are not code of this repository; they
  are parameters: the intercept and the slope fitted on a non-empty regression input,
  and a percentile of a non-empty vector. The design matrix has the rows
  \<open>[1, market_share]\<close>.
\<close>

record regression_lib =
  OLS_fit :: "real list \<Rightarrow> real list list \<Rightarrow> real \<times> real"
  WLS_fit :: "real list \<Rightarrow> real list list \<Rightarrow> real list \<Rightarrow> real \<times> real"
  percentile :: "real list \<Rightarrow> real \<Rightarrow> real"

text \<open>
  Modelled from the spec: the regression calls \<open>OLS(effect_hub, X).fit()\<close> and
  \<open>WLS(effect_hub, X, weights=w_hub).fit()\<close> of statsmodels, which is not under src/.
  Sections 4.4 and 7 of the spec: a hub stratum with zero observations yields an empty
  regression input, and the regression call itself fails (an invalid-argument error);
  on a non-empty input the call returns the fitted intercept and slope.
\<close>

definition OLS :: "regression_lib \<Rightarrow> real list \<Rightarrow> real list list \<Rightarrow> error + real \<times> real" where
  "OLS lib effect_hub X =
     (if X = [] then Inl EmptyRegressionInput else Inr (OLS_fit lib effect_hub X))"

definition WLS ::
  "regression_lib \<Rightarrow> real list \<Rightarrow> real list list \<Rightarrow> real list \<Rightarrow> error + real \<times> real" where
  "WLS lib effect_hub X w_hub =
     (if X = [] then Inl EmptyRegressionInput else Inr (WLS_fit lib effect_hub X w_hub))"

record stats =
  st_median :: real
  st_mean :: real
  st_p2_5 :: real
  st_p97_5 :: real

record hub_summary =
  n_obs :: nat
  intercept_stats :: stats
  slope_stats :: stats

text \<open>Boolean-mask indexing \<open>xs[mask]\<close>, for a mask as long as \<open>xs\<close>.\<close>

definition select :: "bool list \<Rightarrow> 'a list \<Rightarrow> 'a list" where
  "select msk xs = map snd (filter fst (zip msk xs))"

text \<open>
  The four statistics of a vector of estimates. \<open>np.percentile\<close> raises an IndexError on
  an empty vector, which is what the vectors are when \<open>effect\<close> has no column; the median
  is the first statistic computed.
\<close>

definition stats_of :: "regression_lib \<Rightarrow> real list \<Rightarrow> stats" where
  "stats_of lib v = \<lparr> st_median = percentile lib v 50,
                       st_mean = sum_list v / real (length v),
                       st_p2_5 = percentile lib v 2.5, st_p97_5 = percentile lib v 97.5 \<rparr>"

definition summarize :: "regression_lib \<Rightarrow> real list \<Rightarrow> error + stats" where
  "summarize lib v = (if v = [] then Inl IndexError else Inr (stats_of lib v))"

fun fit_columns ::
  "regression_lib \<Rightarrow> real ndarray \<Rightarrow> bool list \<Rightarrow> real list list \<Rightarrow> real list option \<Rightarrow> nat list
     \<Rightarrow> real list \<Rightarrow> real list \<Rightarrow> error + real list \<times> real list" where
  "fit_columns lib effect' hub_ind X w_hub [] slope_vec intercept_vec =
     Inr (slope_vec, intercept_vec)"
| "fit_columns lib effect' hub_ind X w_hub (column # columns) slope_vec intercept_vec =
     (let effect_hub = select hub_ind (column2 effect' column);
          results = (case w_hub of
                       None \<Rightarrow> OLS lib effect_hub X
                     | Some w \<Rightarrow> WLS lib effect_hub X w)
      in case results of
           Inl e \<Rightarrow> Inl e
         | Inr (reg_int, reg_slope) \<Rightarrow>
             fit_columns lib effect' hub_ind X w_hub columns
               (slope_vec @ [reg_slope]) (intercept_vec @ [reg_int]))"

record slopes_acc =
  slope_mat :: "real list list"
  intercept_mat :: "real list list"
  summary_list :: "(nat \<times> hub_summary) list"

definition hub_mask :: "real list \<Rightarrow> nat \<Rightarrow> bool list" where
  "hub_mask hub_size hub = map (\<lambda>h. h = real hub) hub_size"

definition design :: "real list \<Rightarrow> real list list" where
  "design ms_hub = map (\<lambda>m. [1, m]) ms_hub"

fun hub_loop ::
  "regression_lib \<Rightarrow> real list \<Rightarrow> real list \<Rightarrow> real ndarray \<Rightarrow> real list option \<Rightarrow> nat \<Rightarrow> nat list
     \<Rightarrow> slopes_acc \<Rightarrow> error + slopes_acc" where
  "hub_loop lib market_share' hub_size effect' weights columns [] acc = Inr acc"
| "hub_loop lib market_share' hub_size effect' weights columns (hub # hubs) acc =
     (let hub_ind = hub_mask hub_size hub;
          n = length (filter id hub_ind);
          X = design (select hub_ind market_share')
      in case (case weights of
                 None \<Rightarrow> Inr None
               | Some w \<Rightarrow>
                   let w_hub = select hub_ind w
                   in if list_ex (\<lambda>x. x \<le> 0) w_hub then Inl (NonPositiveWeights hub)
                      else Inr (Some w_hub)) of
           Inl e \<Rightarrow> Inl e
         | Inr w_hub \<Rightarrow>
             (case fit_columns lib effect' hub_ind X w_hub [0..<columns] [] [] of
                Inl e \<Rightarrow> Inl e
              | Inr (slope_vec, intercept_vec) \<Rightarrow>
                  (case summarize lib intercept_vec of
                     Inl e \<Rightarrow> Inl e
                   | Inr i_stats \<Rightarrow>
                       (case summarize lib slope_vec of
                          Inl e \<Rightarrow> Inl e
                        | Inr s_stats \<Rightarrow>
                            hub_loop lib market_share' hub_size effect' weights columns hubs
                              \<lparr> slope_mat = slope_mat acc @ [slope_vec],
                                intercept_mat = intercept_mat acc @ [intercept_vec],
                                summary_list = summary_list acc @
                                  [(hub, \<lparr> n_obs = n, intercept_stats = i_stats,
                                           slope_stats = s_stats \<rparr>)] \<rparr>))))"

definition find_slopes ::
  "regression_lib \<Rightarrow> real list \<Rightarrow> real list \<Rightarrow> real ndarray \<Rightarrow> real list option
     \<Rightarrow> error + slopes_acc" where
  "find_slopes lib market_share' hub_size effect' weights =
     (if length market_share' \<noteq> length hub_size then Inl NotAligned
      else case shape effect' of
        [] \<Rightarrow> Inl IndexError
      | n0 # _ \<Rightarrow>
          if length market_share' \<noteq> n0 then Inl NotAligned
          else if (case weights of None \<Rightarrow> False | Some w \<Rightarrow> length w \<noteq> length hub_size)
          then Inl WeightsNotAligned
          else if ndim effect' \<noteq> 2 then Inl UnpackError
          else hub_loop lib market_share' hub_size effect' weights (shape effect' ! 1)
                 [0, 1, 2, 3]
                 \<lparr> slope_mat = [], intercept_mat = [], summary_list = [] \<rparr>)"

text \<open>
  The fit of one column within one stratum, the weights of a stratum as the loop passes
  them to the fit, whether a stratum holds a non-positive weight, and what a stratum
  adds to the result.
\<close>

definition fit_one ::
  "regression_lib \<Rightarrow> real ndarray \<Rightarrow> bool list \<Rightarrow> real list list \<Rightarrow> real list option \<Rightarrow> nat
     \<Rightarrow> real \<times> real" where
  "fit_one lib eff hub_ind X w_hub column =
     (case w_hub of
        None \<Rightarrow> OLS_fit lib (select hub_ind (column2 eff column)) X
      | Some w \<Rightarrow> WLS_fit lib (select hub_ind (column2 eff column)) X w)"

definition w_hub_of :: "real list \<Rightarrow> real list option \<Rightarrow> nat \<Rightarrow> real list option" where
  "w_hub_of hs weights hub = map_option (select (hub_mask hs hub)) weights"

definition bad_hub :: "real list \<Rightarrow> real list option \<Rightarrow> nat \<Rightarrow> bool" where
  "bad_hub hs weights hub =
     (case weights of None \<Rightarrow> False
      | Some w \<Rightarrow> list_ex (\<lambda>x. x \<le> 0) (select (hub_mask hs hub) w))"

definition stratum_fits ::
  "regression_lib \<Rightarrow> real list \<Rightarrow> real list \<Rightarrow> real ndarray \<Rightarrow> real list option \<Rightarrow> nat \<Rightarrow> nat
     \<Rightarrow> (real \<times> real) list" where
  "stratum_fits lib ms hs eff weights columns hub =
     map (fit_one lib eff (hub_mask hs hub) (design (select (hub_mask hs hub) ms))
            (w_hub_of hs weights hub)) [0..<columns]"

definition stratum_acc ::
  "regression_lib \<Rightarrow> real list \<Rightarrow> real list \<Rightarrow> real ndarray \<Rightarrow> real list option \<Rightarrow> nat \<Rightarrow> nat
     \<Rightarrow> slopes_acc \<Rightarrow> slopes_acc" where
  "stratum_acc lib ms hs eff weights columns hub acc =
     (let fits = stratum_fits lib ms hs eff weights columns hub
      in \<lparr> slope_mat = slope_mat acc @ [map snd fits],
           intercept_mat = intercept_mat acc @ [map fst fits],
           summary_list = summary_list acc @
             [(hub, \<lparr> n_obs = length (filter id (hub_mask hs hub)),
                      intercept_stats = stats_of lib (map fst fits),
                      slope_stats = stats_of lib (map snd fits) \<rparr>)] \<rparr>)"

text \<open>
  A stand-in for the two libraries in concrete runs, in exact arithmetic. The fit is
  weighted least squares for the two-parameter model: the solution of the normal
  equations where it is unique, and the solution of least norm where all market shares
  of the input coincide. (The model asks for no fit on an empty input.) The percentile
  interpolates linearly between the two nearest order statistics.
\<close>

definition normal_equations :: "real list \<Rightarrow> real list list \<Rightarrow> real list \<Rightarrow> real \<times> real" where
  "normal_equations y X w =
     (let x = map (\<lambda>r. r ! 1) X;
          sw = sum_list w;
          sx = sum_list (map2 (*) w x);
          sy = sum_list (map2 (*) w y);
          sxx = sum_list (map2 (*) w (map2 (*) x x));
          sxy = sum_list (map2 (*) w (map2 (*) x y));
          det = sw * sxx - sx * sx
      in if det \<noteq> 0 then ((sxx * sy - sx * sxy) / det, (sw * sxy - sx * sy) / det)
         else if sw = 0 then (0, 0)
         else (let x0 = sx / sw; ybar = sy / sw
               in (ybar / (1 + x0 * x0), ybar * x0 / (1 + x0 * x0))))"

definition linear_percentile :: "real list \<Rightarrow> real \<Rightarrow> real" where
  "linear_percentile v q =
     (let sv = sort v;
          h = (real (length v) - 1) * q / 100;
          lo = nat \<lfloor>h\<rfloor>;
          hi = min (lo + 1) (length v - 1)
      in sv ! lo + (h - real lo) * (sv ! hi - sv ! lo))"

definition normal_equations_lib :: regression_lib where
  "normal_equations_lib =
     \<lparr> OLS_fit = (\<lambda>y X. normal_equations y X (replicate (length y) 1)),
       WLS_fit = normal_equations,
       percentile = linear_percentile \<rparr>"

section \<open>Auxiliary notions for the statements\<close>

text \<open>The markets that take part: the groups with more than one row.\<close>

definition eligible :: "row list list \<Rightarrow> row list list" where
  "eligible gs = filter (\<lambda>g. 1 < length g) gs"

text \<open>The output of \<open>determine_effect_coeff\<close> spelled out over the markets that take part.\<close>

definition expected_out :: "real ndarray \<Rightarrow> string \<Rightarrow> string list \<Rightarrow> row list list \<Rightarrow> effect_out" where
  "expected_out rs k0 cols G =
     \<lparr> monthly_flights = concat (map (map (\<lambda>r. r ''MonthlyFlights'')) G),
       market_share = concat (map (map (\<lambda>r. r ''MarketShare'')) G),
       airport_hub_size = concat (map (map (\<lambda>r. r ''AirportHubSize'')) G),
       effect = from_rows (shape rs ! 0) (concat (map (effect_mat rs cols) G)),
       group_id_first_key = concat (map (map (\<lambda>r. r k0)) G) \<rparr>"

text \<open>
  The number of rows of the table in the market of row \<open>r\<close>, and the table without the
  rows of markets that hold a single row.
\<close>

definition market_size :: "string list \<Rightarrow> row list \<Rightarrow> row \<Rightarrow> nat" where
  "market_size ks rs r = length (filter (\<lambda>r'. group_key ks r' = group_key ks r) rs)"

definition multi_rows :: "string list \<Rightarrow> row list \<Rightarrow> row list" where
  "multi_rows ks rs = filter (\<lambda>r. 1 < market_size ks rs r) rs"

text \<open>
  Concrete tables: airport 7 and airport 5 each hold a market of two airlines in March
  2020, airport 3 a market of one.
\<close>

definition table_columns :: "string list" where
  "table_columns = [''OriginAirportID'', ''Year'', ''Month'', ''MarketShare'', ''HHI'',
     ''MonthlyFlights'', ''AirportHubSize'', ''AirlineHubSize'', ''AirlineHubSize_0'',
     ''AirlineHubSize_1'', ''AirlineHubSize_2'', ''AirlineHubSize_3'']"

definition row_a1 :: row where
  "row_a1 = mk_row [(''OriginAirportID'', 7), (''Year'', 2020), (''Month'', 3),
     (''MarketShare'', 0.6), (''HHI'', 0.52), (''MonthlyFlights'', 120),
     (''AirportHubSize'', 2), (''AirlineHubSize'', 2), (''AirlineHubSize_2'', 1)]"

definition row_a2 :: row where
  "row_a2 = mk_row [(''OriginAirportID'', 7), (''Year'', 2020), (''Month'', 3),
     (''MarketShare'', 0.4), (''HHI'', 0.52), (''MonthlyFlights'', 80),
     (''AirportHubSize'', 2), (''AirlineHubSize'', 2), (''AirlineHubSize_2'', 1)]"

definition row_b1 :: row where
  "row_b1 = mk_row [(''OriginAirportID'', 3), (''Year'', 2020), (''Month'', 3),
     (''MarketShare'', 1), (''HHI'', 1), (''MonthlyFlights'', 50),
     (''AirportHubSize'', 0), (''AirlineHubSize'', 0), (''AirlineHubSize_0'', 1)]"

definition row_c1 :: row where
  "row_c1 = mk_row [(''OriginAirportID'', 5), (''Year'', 2020), (''Month'', 3),
     (''MarketShare'', 0.5), (''HHI'', 0.5), (''MonthlyFlights'', 60),
     (''AirportHubSize'', 1), (''AirlineHubSize'', 1), (''AirlineHubSize_1'', 1)]"

definition row_c2 :: row where
  "row_c2 = mk_row [(''OriginAirportID'', 5), (''Year'', 2020), (''Month'', 3),
     (''MarketShare'', 0.25), (''HHI'', 0.5), (''MonthlyFlights'', 30),
     (''AirportHubSize'', 1), (''AirlineHubSize'', 3), (''AirlineHubSize_3'', 1)]"

definition one_draw :: "real ndarray" where
  "one_draw = NDArray [1, 4] [0, 0, 5.0, 0]"

text \<open>The draw matrix with the single row \<open>true_params\<close>: \<open>np.array([true_params])\<close>.\<close>

definition single_draw :: "real list \<Rightarrow> real ndarray" where
  "single_draw tp = NDArray [1, length tp] tp"

text \<open>
  What either output says about one observation: monthly flights, market share, airport
  hub size, airport id and effect. For the matrix variant these are the parallel arrays
  read row by row, with the single column of the effect matrix.
\<close>

definition obs_tuple :: "true_row \<Rightarrow> real \<times> real \<times> real \<times> real \<times> real" where
  "obs_tuple t = (tr_monthly_flights t, tr_market_share t, tr_airport_hub_size t,
                  tr_airport_id t, tr_effect t)"

definition out_tuples :: "effect_out \<Rightarrow> (real \<times> real \<times> real \<times> real \<times> real) list" where
  "out_tuples out = zip (monthly_flights out) (zip (market_share out)
       (zip (airport_hub_size out) (zip (group_id_first_key out) (column2 (effect out) 0))))"

text \<open>The effect of row \<open>r\<close> within its market \<open>g\<close>, and the tuples of a market.\<close>

definition effect_of :: "real list \<Rightarrow> row list \<Rightarrow> row \<Rightarrow> real" where
  "effect_of tp g r = tr_effect (true_row_of tp g r)"

definition group_tuples ::
  "real list \<Rightarrow> row list \<Rightarrow> (real \<times> real \<times> real \<times> real \<times> real) list" where
  "group_tuples tp g =
     map (\<lambda>r. (r ''MonthlyFlights'', r ''MarketShare'', r ''AirportHubSize'',
               r ''OriginAirportID'', effect_of tp g r)) g"

text \<open>The effect column of either output, as the caller reads it.\<close>

definition effect_column_true :: "real ndarray \<Rightarrow> dataframe \<Rightarrow> error + real list" where
  "effect_column_true true_params df =
     (case determine_effect_coeff_true true_params df of
        Inl e \<Rightarrow> Inl e | Inr rows \<Rightarrow> Inr (map tr_effect rows))"

definition effect_column_matrix :: "real list \<Rightarrow> dataframe \<Rightarrow> error + real list" where
  "effect_column_matrix tp df =
     (case determine_effect_coeff df (single_draw tp) GROUP_KEYS HUB_DUMMY_COLS of
        Inl e \<Rightarrow> Inl e | Inr out \<Rightarrow> Inr (column2 (effect out) 0))"

text \<open>Airport 7 listed before airport 5, and the same rows with airport 5 first.\<close>

definition table_descending :: dataframe where
  "table_descending = \<lparr>df_columns = table_columns, df_rows = [row_a1, row_a2, row_c1, row_c2]\<rparr>"

definition table_ascending :: dataframe where
  "table_ascending = \<lparr>df_columns = table_columns, df_rows = [row_c1, row_c2, row_a1, row_a2]\<rparr>"

section \<open>Properties of the dominance engine\<close>

lemma count_trichotomy:
  assumes "\<And>s. s \<in> set xs \<Longrightarrow> f s \<noteq> NaN \<and> g s \<noteq> NaN"
  shows "length (filter (\<lambda>s. float_gt (f s) (g s)) xs)
          + length (filter (\<lambda>s. float_gt (g s) (f s)) xs)
          + length (filter (\<lambda>s. float_eq (f s) (g s)) xs) = length xs"
  using assms
proof (induction xs)
  case Nil
  then show ?case by simp
next
  case (Cons x xs)
  from Cons.prems [of x] obtain u v where "f x = Fl u" "g x = Fl v"
    by (cases "f x"; cases "g x") auto
  with Cons show ?case by auto
qed

lemma count_split:
  assumes "\<forall>s < shape arr ! 0. at2 arr s i \<noteq> NaN \<and> at2 arr s j \<noteq> NaN"
  shows "count_gt arr i j + count_gt arr j i + count_eq arr i j = shape arr ! 0"
  unfolding count_gt_def count_eq_def
  using count_trichotomy [of "[0..<shape arr ! 0]" "\<lambda>s. at2 arr s i" "\<lambda>s. at2 arr s j"] assms
  by simp

lemma count_gt_le: "count_gt arr i j \<le> shape arr ! 0"
  unfolding count_gt_def
  using length_filter_le [of "\<lambda>s. float_gt (at2 arr s i) (at2 arr s j)" "[0..<shape arr ! 0]"]
  by simp

lemma pf_values_entry:
  assumes "ndim a = 2" "labels_fit labels (shape a ! 1)"
    and "i < shape a ! 1" "j < shape a ! 1"
  shows "\<exists>df. prob_values_different (AsArray a) labels d = Inr df
          \<and> length (pf_values df) = shape a ! 1
          \<and> length (pf_values df ! i) = shape a ! 1
          \<and> pf_values df ! i ! j =
              (if i = j then (if d then Fl (1/2) else NaN) else mean_gt a i j)"
  using assms
  by (auto simp: prob_values_different_def labels_fit_def Let_def pairwise_probs_def
        fill_diagonal_def split: option.splits)

lemma length_filter_card:
  "length (filter P [0..<n]) = card {s. s < n \<and> P s}"
  by (simp add: distinct_length_filter Int_def conj_commute)

lemma count_gt_card:
  "count_gt arr i j = card {s. s < shape arr ! 0 \<and> float_gt (at2 arr s i) (at2 arr s j)}"
  by (simp add: count_gt_def length_filter_card)

lemma count_eq_card:
  "count_eq arr i j = card {s. s < shape arr ! 0 \<and> float_eq (at2 arr s i) (at2 arr s j)}"
  by (simp add: count_eq_def length_filter_card)

lemma count_eq_zero_iff:
  "count_eq arr i j = 0 \<longleftrightarrow> (\<forall>s < shape arr ! 0. \<not> float_eq (at2 arr s i) (at2 arr s j))"
  by (auto simp: count_eq_def filter_empty_conv)

lemma mean_gt_unit: "unit_or_nan (mean_gt arr i j)"
  using count_gt_le [of arr i j]
  by (simp add: mean_gt_def unit_or_nan_def Let_def divide_le_eq_1)

text \<open>
  C4. For a 2-D array of shape \<open>(num_sims, k)\<close> with at least one draw (and labels, when
  given, of length \<open>k\<close>), \<open>prob_values_different\<close> returns a \<open>k \<times> k\<close> matrix: the entry
  \<open>(i, j)\<close> with \<open>i \<noteq> j\<close> is the number of draws with \<open>arr[s, i] > arr[s, j]\<close>, strictly
  and as floats compare, divided by \<open>num_sims\<close>; the diagonal is NaN by default and
  exactly \<open>0.5\<close> when \<open>include_diagonal\<close> is set; every entry is NaN or lies in \<open>[0, 1]\<close>.
  The cells of the input may be NaN.
\<close>

theorem prob_values_different_matrix:
  assumes "wf_ndarray a" and "shape a = [num_sims, k]" and "1 \<le> num_sims"
    and "labels_fit labels k"
  shows "\<exists>df. prob_values_different (AsArray a) labels include_diagonal = Inr df
          \<and> length (pf_values df) = k
          \<and> (\<forall>i<k. length (pf_values df ! i) = k)
          \<and> (\<forall>i<k. \<forall>j<k. i \<noteq> j \<longrightarrow>
                pf_values df ! i ! j =
                  Fl (real (card {s. s < num_sims \<and> float_gt (at2 a s i) (at2 a s j)})
                        / real num_sims))
          \<and> (\<forall>i<k. pf_values df ! i ! i = (if include_diagonal then Fl (1/2) else NaN))
          \<and> (\<forall>i<k. \<forall>j<k. unit_or_nan (pf_values df ! i ! j))"
proof -
  let ?v = "if include_diagonal then Fl (1/2) else NaN"
  let ?df = "\<lparr> pf_index = (case labels of None \<Rightarrow> map IntLabel [0..<k] | Some l \<Rightarrow> l),
              pf_columns = (case labels of None \<Rightarrow> map IntLabel [0..<k] | Some l \<Rightarrow> l),
              pf_values = fill_diagonal (pairwise_probs a) ?v \<rparr>"
  have run: "prob_values_different (AsArray a) labels include_diagonal = Inr ?df"
    using assms(2,4)
    by (auto simp: prob_values_different_def ndim_def labels_fit_def Let_def
          split: option.splits)
  have len: "length (pf_values ?df) = k"
    using assms(2) by (simp add: fill_diagonal_def pairwise_probs_def)
  have entry: "pf_values ?df ! i ! j = (if i = j then ?v else mean_gt a i j)"
    if "i < k" "j < k" for i j
    using that assms(2) by (simp add: fill_diagonal_def pairwise_probs_def)
  have rowlen: "length (pf_values ?df ! i) = k" if "i < k" for i
    using that assms(2) by (simp add: fill_diagonal_def pairwise_probs_def)
  have off: "pf_values ?df ! i ! j =
               Fl (real (card {s. s < num_sims \<and> float_gt (at2 a s i) (at2 a s j)})
                     / real num_sims)"
    if "i < k" "j < k" "i \<noteq> j" for i j
    using that assms(2,3) entry [of i j] by (simp add: mean_gt_def count_gt_card)
  have unit: "unit_or_nan (pf_values ?df ! i ! j)" if "i < k" "j < k" for i j
    using that entry [of i j] mean_gt_unit [of a i j] by (simp add: unit_or_nan_def)
  have diag: "pf_values ?df ! i ! i = ?v" if "i < k" for i
    using that entry [of i i] by simp
  show ?thesis
    using run len rowlen off diag unit by blast
qed

theorem prob_values_different_matrix_witness:
  "wf_ndarray (NDArray [2, 2] [Fl 1, Fl 2, Fl 3, NaN]) \<and> (1::nat) \<le> 2 \<and> labels_fit None 2
   \<and> (\<exists>df. prob_values_different (AsArray (NDArray [2, 2] [Fl 1, Fl 2, Fl 3, NaN])) None False
              = Inr df
        \<and> pf_values df ! 0 ! 1 = Fl 0 \<and> pf_values df ! 1 ! 0 = Fl (1/2)
        \<and> pf_values df ! 0 ! 0 = NaN)"
proof -
  let ?a = "NDArray [2, 2] [Fl 1, Fl 2, Fl 3, NaN]"
  have h1: "wf_ndarray ?a" by (simp add: wf_ndarray_def)
  have h2: "shape ?a = [2, 2]" by simp
  have h3: "(1::nat) \<le> 2" by simp
  have h4: "labels_fit None 2" by (simp add: labels_fit_def)
  have c01: "card {s. s < (2::nat) \<and> float_gt (at2 ?a s 0) (at2 ?a s 1)} = 0"
    by (simp add: length_filter_card [symmetric] at2_def numeral_2_eq_2)
  have c10: "card {s. s < (2::nat) \<and> float_gt (at2 ?a s 1) (at2 ?a s 0)} = 1"
    by (simp add: length_filter_card [symmetric] at2_def numeral_2_eq_2)
  from prob_values_different_matrix [OF h1 h2 h3 h4, of False]
  obtain df where "prob_values_different (AsArray ?a) None False = Inr df"
    and "pf_values df ! 0 ! 1 =
           Fl (real (card {s. s < (2::nat) \<and> float_gt (at2 ?a s 0) (at2 ?a s 1)})
                 / real (2::nat))"
    and "pf_values df ! 1 ! 0 =
           Fl (real (card {s. s < (2::nat) \<and> float_gt (at2 ?a s 1) (at2 ?a s 0)})
                 / real (2::nat))"
    and "pf_values df ! 0 ! 0 = NaN"
    by fastforce
  then show ?thesis using h1 h3 h4 c01 c10 by auto
qed

text \<open>
  C10, as amended. For distinct columns \<open>i\<close> and \<open>j\<close> that hold no NaN, and with the
  entries read as exact fractions, the two off-diagonal entries are numbers and add up to
  one minus the share of draws where the two values tie; so their sum is at most one, and
  it is one exactly when no draw ties the two values.
\<close>

theorem prob_values_different_pair_sum:
  assumes "wf_ndarray a" and "shape a = [num_sims, k]" and "1 \<le> num_sims"
    and "labels_fit labels k" and "i < k" and "j < k" and "i \<noteq> j"
    and "\<forall>s < num_sims. at2 a s i \<noteq> NaN \<and> at2 a s j \<noteq> NaN"
  shows "\<exists>df p q. prob_values_different (AsArray a) labels include_diagonal = Inr df
          \<and> pf_values df ! i ! j = Fl p \<and> pf_values df ! j ! i = Fl q
          \<and> p + q = 1 - real (card {s. s < num_sims \<and> float_eq (at2 a s i) (at2 a s j)})
                          / real num_sims
          \<and> p + q \<le> 1
          \<and> (p + q = 1 \<longleftrightarrow> (\<forall>s<num_sims. \<not> float_eq (at2 a s i) (at2 a s j)))"
proof -
  have nd: "ndim a = 2" and lf: "labels_fit labels (shape a ! 1)"
    and ik: "i < shape a ! 1" and jk: "j < shape a ! 1"
    using assms by (simp_all add: ndim_def)
  from pf_values_entry [OF nd lf ik jk, of include_diagonal] assms(7)
  obtain df where run: "prob_values_different (AsArray a) labels include_diagonal = Inr df"
    and ij: "pf_values df ! i ! j = mean_gt a i j"
    by auto
  from pf_values_entry [OF nd lf jk ik, of include_diagonal] assms(7) run
  have ji: "pf_values df ! j ! i = mean_gt a j i"
    by auto
  let ?n = "real num_sims"
  let ?p = "real (count_gt a i j) / ?n" and ?q = "real (count_gt a j i) / ?n"
  have n0: "shape a ! 0 = num_sims" "0 < ?n" using assms(2,3) by simp_all
  have pij: "mean_gt a i j = Fl ?p" and qji: "mean_gt a j i = Fl ?q"
    using n0 by (simp_all add: mean_gt_def)
  have "count_gt a i j + count_gt a j i + count_eq a i j = num_sims"
    using count_split [of a i j] assms(8) n0 by simp
  then have "real (count_gt a i j) + real (count_gt a j i) + real (count_eq a i j) = ?n"
    by (metis of_nat_add)
  then have sum: "?p + ?q = 1 - real (count_eq a i j) / ?n"
    using n0 by (simp add: field_simps)
  have le: "?p + ?q \<le> 1" using sum n0 by simp
  have one: "?p + ?q = 1 \<longleftrightarrow> (\<forall>s<num_sims. \<not> float_eq (at2 a s i) (at2 a s j))"
    using sum n0 count_eq_zero_iff [of a i j] by simp
  have card: "real (count_eq a i j)
                = real (card {s. s < num_sims \<and> float_eq (at2 a s i) (at2 a s j)})"
    using n0 by (simp add: count_eq_card)
  show ?thesis
    using run ij ji pij qji sum le one card by (metis (no_types, lifting))
qed

theorem prob_values_different_pair_sum_witness:
  "wf_ndarray (NDArray [3, 2] [Fl 1, Fl 2, Fl 4, Fl 3, Fl 5, Fl 5]) \<and> labels_fit None 2
   \<and> (\<exists>df p q. prob_values_different
                  (AsArray (NDArray [3, 2] [Fl 1, Fl 2, Fl 4, Fl 3, Fl 5, Fl 5])) None True
                  = Inr df
        \<and> pf_values df ! 0 ! 1 = Fl p \<and> pf_values df ! 1 ! 0 = Fl q \<and> p + q = 2 / 3)"
proof -
  let ?a = "NDArray [3, 2] [Fl 1, Fl 2, Fl 4, Fl 3, Fl 5, Fl 5]"
  have h1: "wf_ndarray ?a" by (simp add: wf_ndarray_def)
  have h2: "shape ?a = [3, 2]" by simp
  have h3: "(1::nat) \<le> 3" by simp
  have h4: "labels_fit None 2" by (simp add: labels_fit_def)
  have h5: "(0::nat) < 2" "(1::nat) < 2" "(0::nat) \<noteq> 1" by simp_all
  have h6: "\<forall>s < (3::nat). at2 ?a s 0 \<noteq> NaN \<and> at2 ?a s 1 \<noteq> NaN"
    by (simp add: at2_def numeral_3_eq_3 All_less_Suc)
  have ties: "card {s. s < (3::nat) \<and> float_eq (at2 ?a s 0) (at2 ?a s 1)} = 1"
    by (simp add: length_filter_card [symmetric] at2_def numeral_3_eq_3)
  from prob_values_different_pair_sum [OF h1 h2 h3 h4 h5 h6, of True]
  show ?thesis using h1 h4 unfolding ties by auto
qed

text \<open>
  C10 as stated fails on an input that holds NaN: for the single draw \<open>[nan, 1.0]\<close> both
  off-diagonal entries are 0 and no draw ties the two values, so the entries do not add
  up to one.
\<close>

theorem prob_values_different_nan_counterexample:
  "prob_values_different (AsArray (NDArray [1, 2] [NaN, Fl 1])) None False
     = Inr \<lparr> pf_index = [IntLabel 0, IntLabel 1], pf_columns = [IntLabel 0, IntLabel 1],
             pf_values = [[NaN, Fl 0], [Fl 0, NaN]] \<rparr>
   \<and> count_eq (NDArray [1, 2] [NaN, Fl 1]) 0 1 = 0"
  by (simp add: prob_values_different_def ndim_def Let_def pairwise_probs_def mean_gt_def
        count_gt_def count_eq_def at2_def fill_diagonal_def numeral_2_eq_2)

section \<open>Properties of the effect propagator\<close>

lemma effect_loop_fields:
  "effect_list (effect_loop rs k0 cols gs acc)
     = effect_list acc @ map (effect_mat rs cols) (eligible gs)"
  "monthly_flights_acc (effect_loop rs k0 cols gs acc)
     = monthly_flights_acc acc @ map (map (\<lambda>r. r ''MonthlyFlights'')) (eligible gs)"
  "market_share_acc (effect_loop rs k0 cols gs acc)
     = market_share_acc acc @ map (map (\<lambda>r. r ''MarketShare'')) (eligible gs)"
  "airport_hub_size_acc (effect_loop rs k0 cols gs acc)
     = airport_hub_size_acc acc @ map (map (\<lambda>r. r ''AirportHubSize'')) (eligible gs)"
  "group_id_first_key_acc (effect_loop rs k0 cols gs acc)
     = group_id_first_key_acc acc @ map (map (\<lambda>r. r k0)) (eligible gs)"
  by (induction gs arbitrary: acc; simp add: append_group_def eligible_def)+

lemma determine_effect_coeff_ok:
  assumes "ndim rs = 2" "shape rs ! 1 = length cols"
    and "required_columns ks cols \<subseteq> set (df_columns df)" and "ks \<noteq> []"
  shows "determine_effect_coeff df rs ks cols
           = Inr (expected_out rs (hd ks) cols (eligible (groupby_sorted ks (df_rows df))))"
proof -
  obtain k0 ks' where ks: "ks = k0 # ks'" using assms(4) by (cases ks) auto
  have miss: "required_columns ks cols - set (df_columns df) = {}"
    using assms(3) by auto
  show ?thesis
    using assms(1,2) miss
    by (simp add: determine_effect_coeff_def ks Let_def effect_loop_fields accum_empty_def
          expected_out_def from_rows_def del: Diff_eq_empty_iff)
qed



lemma eligible_idem: "eligible (eligible gs) = eligible gs"
  by (simp add: eligible_def)

lemma effect_loop_eligible:
  "effect_loop rs k0 cols (eligible gs) acc = effect_loop rs k0 cols gs acc"
  by (induction gs arbitrary: acc) (simp_all add: eligible_def)

lemma groups_of_filter_keys:
  "filter (\<lambda>g. 1 < length g) (groups_of ks rs keys)
     = groups_of ks rs (filter (\<lambda>k. 1 < length (filter (\<lambda>r. group_key ks r = k) rs)) keys)"
  by (simp add: groups_of_def filter_map comp_def)

lemma filter_key_multi_rows:
  assumes "1 < length (filter (\<lambda>r. group_key ks r = k) rs)"
  shows "filter (\<lambda>r. group_key ks r = k) (multi_rows ks rs) = filter (\<lambda>r. group_key ks r = k) rs"
proof -
  have "filter (\<lambda>r. group_key ks r = k) (multi_rows ks rs)
          = filter (\<lambda>r. 1 < market_size ks rs r \<and> group_key ks r = k) rs"
    by (simp add: multi_rows_def conj_commute)
  also have "\<dots> = filter (\<lambda>r. group_key ks r = k) rs"
    using assms by (intro filter_cong) (auto simp: market_size_def)
  finally show ?thesis .
qed

lemma keys_multi_rows:
  "map (group_key ks) (multi_rows ks rs)
     = filter (\<lambda>k. 1 < length (filter (\<lambda>r. group_key ks r = k) rs)) (map (group_key ks) rs)"
  by (simp add: multi_rows_def market_size_def filter_map comp_def)

lemma groupby_sorted_multi_rows:
  "groupby_sorted ks (multi_rows ks rs) = eligible (groupby_sorted ks rs)"
proof -
  let ?big = "\<lambda>k. 1 < length (filter (\<lambda>r. group_key ks r = k) rs)"
  let ?keys = "sort (remdups (map (group_key ks) rs))"
  have "sort (remdups (map (group_key ks) (multi_rows ks rs))) = filter ?big ?keys"
    by (simp add: keys_multi_rows remdups_filter filter_sort)
  then have "groupby_sorted ks (multi_rows ks rs)
               = map (\<lambda>k. filter (\<lambda>r. group_key ks r = k) (multi_rows ks rs)) (filter ?big ?keys)"
    by (simp add: groupby_sorted_def groups_of_def)
  also have "\<dots> = map (\<lambda>k. filter (\<lambda>r. group_key ks r = k) rs) (filter ?big ?keys)"
    by (intro map_cong refl) (simp add: filter_key_multi_rows)
  also have "\<dots> = eligible (groupby_sorted ks rs)"
    unfolding eligible_def groupby_sorted_def groups_of_filter_keys
    by (simp add: groups_of_def)
  finally show ?thesis .
qed

lemma mset_filter_disj:
  assumes "\<And>x. x \<in> set xs \<Longrightarrow> \<not> (P x \<and> Q x)"
  shows "mset (filter P xs) + mset (filter Q xs) = mset (filter (\<lambda>x. P x \<or> Q x) xs)"
  using assms by (induction xs) auto

lemma mset_concat_groups_of:
  "distinct keys \<Longrightarrow>
     mset (concat (groups_of ks rs keys)) = mset (filter (\<lambda>r. group_key ks r \<in> set keys) rs)"
proof (induction keys)
  case Nil
  then show ?case by (simp add: groups_of_def)
next
  case (Cons k keys)
  have "mset (concat (groups_of ks rs (k # keys)))
          = mset (filter (\<lambda>r. group_key ks r = k) rs)
              + mset (filter (\<lambda>r. group_key ks r \<in> set keys) rs)"
    using Cons by (simp add: groups_of_def)
  also have "\<dots> = mset (filter (\<lambda>r. group_key ks r = k \<or> group_key ks r \<in> set keys) rs)"
    using Cons.prems by (intro mset_filter_disj) auto
  finally show ?case by (simp add: disj_commute eq_commute [of k])
qed

lemma mset_concat_groupby_sorted: "mset (concat (groupby_sorted ks rs)) = mset rs"
proof -
  have "mset (concat (groupby_sorted ks rs))
          = mset (filter (\<lambda>r. group_key ks r \<in> set (sort (remdups (map (group_key ks) rs)))) rs)"
    unfolding groupby_sorted_def by (rule mset_concat_groups_of) simp
  also have "\<dots> = mset rs"
    by (simp add: filter_id_conv[THEN iffD2])
  finally show ?thesis .
qed

lemma distinct_keys_group_small:
  "distinct (map f xs) \<Longrightarrow> length (filter (\<lambda>x. f x = k) xs) \<le> 1"
proof (induction xs)
  case Nil
  then show ?case by simp
next
  case (Cons x xs)
  show ?case
  proof (cases "f x = k")
    case True
    from Cons.prems have "f x \<notin> f ` set xs" by simp
    with True have "\<forall>y \<in> set xs. f y \<noteq> k" by blast
    then have "filter (\<lambda>y. f y = k) xs = []"
      by (simp add: filter_empty_conv)
    with True show ?thesis by simp
  next
    case False
    with Cons show ?thesis by simp
  qed
qed

lemma eligible_distinct_keys:
  "distinct (map (group_key ks) rs) \<Longrightarrow> eligible (groupby_sorted ks rs) = []"
  using distinct_keys_group_small [of "group_key ks" rs]
  by (auto simp: eligible_def groupby_sorted_def groups_of_def filter_empty_conv not_less)

lemma groupby_sorted_pair:
  "group_key ks r1 = group_key ks r2 \<Longrightarrow> groupby_sorted ks [r1, r2] = [[r1, r2]]"
  by (simp add: groupby_sorted_def groups_of_def)



lemma determine_effect_coeff_Inr:
  assumes "determine_effect_coeff df rs ks cols = Inr out"
  shows "out = expected_out rs (hd ks) cols (eligible (groupby_sorted ks (df_rows df)))"
proof -
  from assms have a: "ndim rs = 2" "shape rs ! 1 = length cols"
    by (auto simp: determine_effect_coeff_def split: if_splits)
  from assms a have b: "required_columns ks cols \<subseteq> set (df_columns df)"
    by (auto simp: determine_effect_coeff_def Let_def split: if_splits)
  from assms a b have c: "ks \<noteq> []"
    by (auto simp: determine_effect_coeff_def Let_def split: if_splits)
  from determine_effect_coeff_ok [OF a b c] assms show ?thesis by simp
qed

lemma length_effect_mat: "length (effect_mat rs cols g) = length g"
  by (simp add: effect_mat_def comp_1_def comp_2_def others_by_bin_def)

lemma length_concat_effect:
  "length (concat (map (effect_mat rs cols) G)) = length (concat G)"
  by (induction G) (simp_all add: length_effect_mat)

lemma mset_concat_map_map:
  "mset (concat (map (map f) G)) = image_mset f (mset (concat G))"
  by (induction G) simp_all

text \<open>
  C1. In a table that holds one market of two observations with market shares 0.6 and 0.4,
  both hub-dummy vectors one-hot at bin 2 and HHI 0.52, and with the single draw
  \<open>[0, 0, 5.0, 0]\<close>: the others vectors are \<open>[0, 0, 0.4, 0]\<close> and \<open>[0, 0, 0.6, 0]\<close>,
  \<open>comp_1\<close> is 0.16 and -0.24, \<open>comp_2\<close> is 2.0 and 3.0, and \<open>determine_effect_coeff\<close>
  returns the effect matrix \<open>[[0.32], [-0.72]]\<close>, in the order of the two observations.
\<close>

theorem effect_two_airline_market:
  assumes "required_columns GROUP_KEYS HUB_DUMMY_COLS \<subseteq> set (df_columns df)"
    and "df_rows df = [r1, r2]"
    and "group_key GROUP_KEYS r1 = group_key GROUP_KEYS r2"
    and "r1 ''MarketShare'' = 0.6" and "r2 ''MarketShare'' = 0.4"
    and "r1 ''HHI'' = 0.52" and "r2 ''HHI'' = 0.52"
    and "map r1 HUB_DUMMY_COLS = [0, 0, 1, 0]" and "map r2 HUB_DUMMY_COLS = [0, 0, 1, 0]"
  shows "others_by_bin HUB_DUMMY_COLS [r1, r2] = [[0, 0, 0.4, 0], [0, 0, 0.6, 0]]
         \<and> comp_1 [r1, r2] = [0.16, - 0.24]
         \<and> comp_2 (NDArray [1, 4] [0, 0, 5.0, 0]) HUB_DUMMY_COLS [r1, r2] = [[2.0], [3.0]]
         \<and> (\<exists>out. determine_effect_coeff df (NDArray [1, 4] [0, 0, 5.0, 0])
                      GROUP_KEYS HUB_DUMMY_COLS = Inr out
                \<and> effect out = NDArray [2, 1] [0.32, - 0.72]
                \<and> rows2 (effect out) = [[0.32], [- 0.72]])"
proof -
  define draw :: "real ndarray" where "draw = NDArray [1, 4] [0, 0, 5.0, 0]"
  have hub: "r1 ''AirlineHubSize_0'' = 0" "r1 ''AirlineHubSize_1'' = 0"
    "r1 ''AirlineHubSize_2'' = 1" "r1 ''AirlineHubSize_3'' = 0"
    "r2 ''AirlineHubSize_0'' = 0" "r2 ''AirlineHubSize_1'' = 0"
    "r2 ''AirlineHubSize_2'' = 1" "r2 ''AirlineHubSize_3'' = 0"
    using assms(8,9) by (simp_all add: HUB_DUMMY_COLS_def)
  have others: "others_by_bin HUB_DUMMY_COLS [r1, r2] = [[0, 0, 0.4, 0], [0, 0, 0.6, 0]]"
    by (simp add: others_by_bin_def S_total_by_bin_def HUB_DUMMY_COLS_def hub assms(4,5))
  have c1: "comp_1 [r1, r2] = [0.16, - 0.24]"
    by (simp add: comp_1_def assms(4-7))
  have draws: "rows2 draw = [[0, 0, 5.0, 0]]"
    by (simp add: draw_def rows2_def row2_def at2_def eval_nat_numeral)
  have sh: "ndim draw = 2" "shape draw ! 1 = length HUB_DUMMY_COLS" "shape draw ! 0 = 1"
    by (simp_all add: draw_def ndim_def HUB_DUMMY_COLS_def)
  have c2: "comp_2 draw HUB_DUMMY_COLS [r1, r2] = [[2.0], [3.0]]"
    by (simp add: comp_2_def others draws dot_def)
  have em: "effect_mat draw HUB_DUMMY_COLS [r1, r2] = [[0.32], [- 0.72]]"
    by (simp add: effect_mat_def c1 c2)
  have G: "eligible (groupby_sorted GROUP_KEYS (df_rows df)) = [[r1, r2]]"
    by (simp add: assms(2) groupby_sorted_pair [OF assms(3)] eligible_def)
  have keys: "GROUP_KEYS \<noteq> []" by (simp add: GROUP_KEYS_def)
  have run: "determine_effect_coeff df draw GROUP_KEYS HUB_DUMMY_COLS
          = Inr (expected_out draw (hd GROUP_KEYS) HUB_DUMMY_COLS [[r1, r2]])"
    using determine_effect_coeff_ok [OF sh(1,2) assms(1) keys] G by simp
  have eff: "effect (expected_out draw (hd GROUP_KEYS) HUB_DUMMY_COLS [[r1, r2]])
                   = NDArray [2, 1] [0.32, - 0.72]"
    by (simp add: expected_out_def em from_rows_def sh)
  have rws: "rows2 (NDArray [2, 1] [0.32, - 0.72 :: real]) = [[0.32], [- 0.72]]"
    by (simp add: rows2_def row2_def at2_def eval_nat_numeral)
  show ?thesis
    using others c1 c2 run eff rws unfolding draw_def by simp
qed

text \<open>
  C7. \<open>determine_effect_coeff\<close> fails with the shape-mismatch error exactly when the draw
  matrix is not 2-dimensional or its column count differs from the number of hub-dummy
  columns, whatever the table is (the check comes first, so nothing has been computed);
  with a \<open>(num_sims, 4)\<close> matrix and the four default hub-dummy columns this error does
  not occur.
\<close>

theorem shape_mismatch_raised:
  "(determine_effect_coeff df rs ks cols = Inl ShapeMismatch
      \<longleftrightarrow> ndim rs \<noteq> 2 \<or> shape rs ! 1 \<noteq> length cols)
   \<and> (shape rs = [num_sims, 4] \<longrightarrow>
        determine_effect_coeff df rs ks HUB_DUMMY_COLS \<noteq> Inl ShapeMismatch)"
  by (auto simp: determine_effect_coeff_def Let_def ndim_def HUB_DUMMY_COLS_def
        split: list.splits)

text \<open>
  C3. With a conforming draw matrix, the required columns present and a non-empty key
  list, a table in which no two rows share their group key (every market holds at most
  one observation) makes \<open>determine_effect_coeff\<close> return, without an error, four empty
  arrays and an effect matrix of shape \<open>(0, num_sims)\<close>.
\<close>

theorem no_eligible_market_empty_result:
  assumes "shape rs = [num_sims, length cols]"
    and "required_columns ks cols \<subseteq> set (df_columns df)" and "ks \<noteq> []"
    and "distinct (map (group_key ks) (df_rows df))"
  shows "determine_effect_coeff df rs ks cols
           = Inr \<lparr> monthly_flights = [], market_share = [], airport_hub_size = [],
                   effect = NDArray [0, num_sims] [], group_id_first_key = [] \<rparr>"
proof -
  have a: "ndim rs = 2" "shape rs ! 1 = length cols" using assms(1) by (simp_all add: ndim_def)
  show ?thesis
    using determine_effect_coeff_ok [OF a assms(2,3)] eligible_distinct_keys [OF assms(4)]
      assms(1)
    by (simp add: expected_out_def from_rows_def)
qed

text \<open>
  C2. The rows of markets with a single observation contribute nothing to the output of
  \<open>determine_effect_coeff\<close>: deleting them from the table leaves the result unchanged,
  and when there is a result, its four one-dimensional arrays hold exactly the cells of
  the rows in markets with more than one observation and its effect matrix has exactly
  one row per such row of the table.
\<close>

theorem singleton_markets_contribute_nothing:
  "determine_effect_coeff (df\<lparr>df_rows := multi_rows ks (df_rows df)\<rparr>) rs ks cols
     = determine_effect_coeff df rs ks cols
   \<and> (\<forall>out. determine_effect_coeff df rs ks cols = Inr out \<longrightarrow>
        mset (monthly_flights out)
          = image_mset (\<lambda>r. r ''MonthlyFlights'') (mset (multi_rows ks (df_rows df)))
      \<and> mset (market_share out)
          = image_mset (\<lambda>r. r ''MarketShare'') (mset (multi_rows ks (df_rows df)))
      \<and> mset (airport_hub_size out)
          = image_mset (\<lambda>r. r ''AirportHubSize'') (mset (multi_rows ks (df_rows df)))
      \<and> mset (group_id_first_key out)
          = image_mset (\<lambda>r. r (hd ks)) (mset (multi_rows ks (df_rows df)))
      \<and> shape (effect out) = [length (multi_rows ks (df_rows df)), shape rs ! 0])"
proof (intro conjI allI impI)
  show "determine_effect_coeff (df\<lparr>df_rows := multi_rows ks (df_rows df)\<rparr>) rs ks cols
          = determine_effect_coeff df rs ks cols"
    by (cases ks)
      (simp_all add: determine_effect_coeff_def groupby_sorted_multi_rows effect_loop_eligible)
next
  fix out assume "determine_effect_coeff df rs ks cols = Inr out"
  then have out: "out = expected_out rs (hd ks) cols (groupby_sorted ks (multi_rows ks (df_rows df)))"
    by (simp add: determine_effect_coeff_Inr groupby_sorted_multi_rows)
  note perm = mset_concat_groupby_sorted [of ks "multi_rows ks (df_rows df)"]
  show "mset (monthly_flights out)
          = image_mset (\<lambda>r. r ''MonthlyFlights'') (mset (multi_rows ks (df_rows df)))"
    by (simp add: out expected_out_def mset_concat_map_map perm)
  show "mset (market_share out)
          = image_mset (\<lambda>r. r ''MarketShare'') (mset (multi_rows ks (df_rows df)))"
    by (simp add: out expected_out_def mset_concat_map_map perm)
  show "mset (airport_hub_size out)
          = image_mset (\<lambda>r. r ''AirportHubSize'') (mset (multi_rows ks (df_rows df)))"
    by (simp add: out expected_out_def mset_concat_map_map perm)
  show "mset (group_id_first_key out)
          = image_mset (\<lambda>r. r (hd ks)) (mset (multi_rows ks (df_rows df)))"
    by (simp add: out expected_out_def mset_concat_map_map perm)
  have "length (concat (groupby_sorted ks (multi_rows ks (df_rows df))))
          = length (multi_rows ks (df_rows df))"
    using perm by (metis size_mset)
  then show "shape (effect out) = [length (multi_rows ks (df_rows df)), shape rs ! 0]"
    by (simp add: out expected_out_def from_rows_def length_concat_effect)
qed


theorem effect_two_airline_market_witness:
  "\<exists>out. determine_effect_coeff \<lparr>df_columns = table_columns, df_rows = [row_a1, row_a2]\<rparr>
            (NDArray [1, 4] [0, 0, 5.0, 0]) GROUP_KEYS HUB_DUMMY_COLS = Inr out
         \<and> effect out = NDArray [2, 1] [0.32, - 0.72]"
proof -
  let ?df = "\<lparr>df_columns = table_columns, df_rows = [row_a1, row_a2]\<rparr>"
  have h1: "required_columns GROUP_KEYS HUB_DUMMY_COLS \<subseteq> set (df_columns ?df)"
    by (simp add: required_columns_def GROUP_KEYS_def HUB_DUMMY_COLS_def table_columns_def)
  have h2: "df_rows ?df = [row_a1, row_a2]" by simp
  have h3: "group_key GROUP_KEYS row_a1 = group_key GROUP_KEYS row_a2"
    by (simp add: group_key_def GROUP_KEYS_def row_a1_def row_a2_def mk_row_def)
  have h4: "row_a1 ''MarketShare'' = 0.6" "row_a2 ''MarketShare'' = 0.4"
    "row_a1 ''HHI'' = 0.52" "row_a2 ''HHI'' = 0.52"
    by (simp_all add: row_a1_def row_a2_def mk_row_def)
  have h5: "map row_a1 HUB_DUMMY_COLS = [0, 0, 1, 0]" "map row_a2 HUB_DUMMY_COLS = [0, 0, 1, 0]"
    by (simp_all add: HUB_DUMMY_COLS_def row_a1_def row_a2_def mk_row_def)
  from effect_two_airline_market [OF h1 h2 h3 h4 h5]
  show ?thesis by blast
qed

theorem shape_mismatch_raised_witness:
  "determine_effect_coeff \<lparr>df_columns = table_columns, df_rows = [row_a1, row_a2]\<rparr>
      (NDArray [3] [1, 2, 3]) GROUP_KEYS HUB_DUMMY_COLS = Inl ShapeMismatch
   \<and> determine_effect_coeff \<lparr>df_columns = table_columns, df_rows = [row_a1, row_a2]\<rparr>
      (NDArray [1, 5] [0, 0, 5, 0, 1]) GROUP_KEYS HUB_DUMMY_COLS = Inl ShapeMismatch
   \<and> determine_effect_coeff \<lparr>df_columns = table_columns, df_rows = [row_a1, row_a2]\<rparr>
      one_draw GROUP_KEYS HUB_DUMMY_COLS \<noteq> Inl ShapeMismatch"
proof -
  let ?df = "\<lparr>df_columns = table_columns, df_rows = [row_a1, row_a2]\<rparr>"
  have a: "ndim (NDArray [3] [1, 2, 3]) \<noteq> 2" by (simp add: ndim_def)
  have b: "shape (NDArray [1, 5] [0, 0, 5, 0, 1]) ! 1 \<noteq> length HUB_DUMMY_COLS"
    by (simp add: HUB_DUMMY_COLS_def)
  have c: "shape one_draw = [1, 4]" by (simp add: one_draw_def)
  show ?thesis
    using shape_mismatch_raised [of ?df "NDArray [3] [1, 2, 3]" GROUP_KEYS HUB_DUMMY_COLS 0] a
      shape_mismatch_raised [of ?df "NDArray [1, 5] [0, 0, 5, 0, 1]" GROUP_KEYS HUB_DUMMY_COLS 0] b
      shape_mismatch_raised [of ?df one_draw GROUP_KEYS HUB_DUMMY_COLS 1] c
    by blast
qed

theorem no_eligible_market_empty_result_witness:
  "distinct (map (group_key GROUP_KEYS) [row_b1, row_a1])
   \<and> determine_effect_coeff \<lparr>df_columns = table_columns, df_rows = [row_b1, row_a1]\<rparr>
        (NDArray [2, 4] [1, 2, 3, 4, 5, 6, 7, 8]) GROUP_KEYS HUB_DUMMY_COLS
      = Inr \<lparr> monthly_flights = [], market_share = [], airport_hub_size = [],
              effect = NDArray [0, 2] [], group_id_first_key = [] \<rparr>"
proof -
  let ?df = "\<lparr>df_columns = table_columns, df_rows = [row_b1, row_a1]\<rparr>"
  have h1: "shape (NDArray [2, 4] [1, 2, 3, 4, 5, 6, 7, 8]) = [2, length HUB_DUMMY_COLS]"
    by (simp add: HUB_DUMMY_COLS_def)
  have h2: "required_columns GROUP_KEYS HUB_DUMMY_COLS \<subseteq> set (df_columns ?df)"
    by (simp add: required_columns_def GROUP_KEYS_def HUB_DUMMY_COLS_def table_columns_def)
  have h3: "GROUP_KEYS \<noteq> []" by (simp add: GROUP_KEYS_def)
  have h4: "distinct (map (group_key GROUP_KEYS) (df_rows ?df))"
    by (simp add: group_key_def GROUP_KEYS_def row_a1_def row_b1_def mk_row_def)
  from no_eligible_market_empty_result [OF h1 h2 h3 h4] h4
  show ?thesis by simp
qed

theorem singleton_markets_contribute_nothing_witness:
  "determine_effect_coeff \<lparr>df_columns = table_columns, df_rows = [row_a1, row_a2]\<rparr>
        one_draw GROUP_KEYS HUB_DUMMY_COLS
     = determine_effect_coeff \<lparr>df_columns = table_columns, df_rows = [row_a1, row_b1, row_a2]\<rparr>
        one_draw GROUP_KEYS HUB_DUMMY_COLS
   \<and> (\<exists>out. determine_effect_coeff
               \<lparr>df_columns = table_columns, df_rows = [row_a1, row_b1, row_a2]\<rparr>
               one_draw GROUP_KEYS HUB_DUMMY_COLS = Inr out
           \<and> mset (market_share out) = {#0.6, 0.4#}
           \<and> shape (effect out) = [2, 1])"
proof -
  let ?df = "\<lparr>df_columns = table_columns, df_rows = [row_a1, row_b1, row_a2]\<rparr>"
  have keys: "group_key GROUP_KEYS row_a1 = [7, 2020, 3]"
    "group_key GROUP_KEYS row_a2 = [7, 2020, 3]" "group_key GROUP_KEYS row_b1 = [3, 2020, 3]"
    by (simp_all add: group_key_def GROUP_KEYS_def row_a1_def row_a2_def row_b1_def mk_row_def)
  have m: "multi_rows GROUP_KEYS (df_rows ?df) = [row_a1, row_a2]"
    by (simp add: multi_rows_def market_size_def keys)
  have upd: "?df\<lparr>df_rows := multi_rows GROUP_KEYS (df_rows ?df)\<rparr>
               = \<lparr>df_columns = table_columns, df_rows = [row_a1, row_a2]\<rparr>"
    unfolding m by simp
  have h1: "required_columns GROUP_KEYS HUB_DUMMY_COLS \<subseteq> set (df_columns ?df)"
    by (simp add: required_columns_def GROUP_KEYS_def HUB_DUMMY_COLS_def table_columns_def)
  have sh: "ndim one_draw = 2" "shape one_draw ! 1 = length HUB_DUMMY_COLS"
    "shape one_draw ! 0 = 1"
    by (simp_all add: one_draw_def ndim_def HUB_DUMMY_COLS_def)
  have h3: "GROUP_KEYS \<noteq> []" by (simp add: GROUP_KEYS_def)
  from determine_effect_coeff_ok [OF sh(1,2) h1 h3]
  obtain out where run: "determine_effect_coeff ?df one_draw GROUP_KEYS HUB_DUMMY_COLS = Inr out"
    by blast
  have ms: "row_a1 ''MarketShare'' = 0.6" "row_a2 ''MarketShare'' = 0.4"
    by (simp_all add: row_a1_def row_a2_def mk_row_def)
  from singleton_markets_contribute_nothing
         [where df = ?df and ks = GROUP_KEYS and rs = one_draw and cols = HUB_DUMMY_COLS] run
  have "determine_effect_coeff \<lparr>df_columns = table_columns, df_rows = [row_a1, row_a2]\<rparr>
          one_draw GROUP_KEYS HUB_DUMMY_COLS
        = determine_effect_coeff ?df one_draw GROUP_KEYS HUB_DUMMY_COLS"
    and "mset (market_share out) = {#0.6, 0.4#}"
    and "shape (effect out) = [2, 1]"
    unfolding upd m sh(3) by (simp_all add: ms)
  with run show ?thesis by simp
qed

section \<open>The point-estimate variant against the matrix variant\<close>

lemma true_loop_eq:
  assumes "true_columns_read \<subseteq> set columns"
  shows "true_loop tp columns gs acc
           = Inr (acc @ concat (map (\<lambda>g. map (true_row_of tp g) g) (eligible gs)))"
  using assms by (induction gs arbitrary: acc) (simp_all add: eligible_def)

lemma rows2_single: "rows2 (single_draw tp) = [tp]"
proof -
  have "map (at2 (single_draw tp) 0) [0..<length tp] = map (\<lambda>i. tp ! i) [0..<length tp]"
    by (simp add: at2_def single_draw_def)
  also have "\<dots> = tp" by (rule map_nth)
  finally show ?thesis by (simp add: rows2_def row2_def single_draw_def)
qed

lemma shape_single_draw: "shape (single_draw tp) = [1, length tp]" "ndim (single_draw tp) = 2"
  "shape (single_draw tp) ! 0 = 1" "shape (single_draw tp) ! 1 = length tp"
  by (simp_all add: single_draw_def ndim_def)

lemma map2_same:
  "map2 f (map a xs) (map b xs) = map (\<lambda>x. f (a x) (b x)) xs"
  by (induction xs) simp_all

lemma totals_agree: "S_total_by_bin HUB_DUMMY_COLS g = total_hub_market_share g"
  by (simp add: S_total_by_bin_def total_hub_market_share_def HUB_DUMMY_COLS_def hub_cols_def
        mult.commute)

lemma effect_mat_single:
  "effect_mat (single_draw tp) HUB_DUMMY_COLS g = map (\<lambda>r. [effect_of tp g r]) g"
proof -
  have same: "hub_cols = HUB_DUMMY_COLS" by (simp add: HUB_DUMMY_COLS_def hub_cols_def)
  have o: "map2 (\<lambda>t c. t - r ''MarketShare'' * r c) T HUB_DUMMY_COLS
             = map2 (\<lambda>t own. t - r ''MarketShare'' * own) T (map r hub_cols)" for r :: row and T
    unfolding same by (simp add: zip_map2 case_prod_unfold)
  show ?thesis
    unfolding effect_mat_def comp_1_def comp_2_def others_by_bin_def rows2_single
      totals_agree o effect_of_def
    by (simp add: map2_same true_row_of_def Let_def comp_def)
qed

lemma zip_map_same: "zip (map a xs) (map b xs) = map (\<lambda>x. (a x, b x)) xs"
  by (induction xs) simp_all

lemma zip_concat_map:
  assumes "\<And>g. g \<in> set G \<Longrightarrow> length (f g) = length (h g)"
  shows "zip (concat (map f G)) (concat (map h G)) = concat (map (\<lambda>g. zip (f g) (h g)) G)"
  using assms by (induction G) simp_all

lemma column2_singletons:
  "column2 (from_rows 1 (map (\<lambda>x. [x]) xs)) 0 = xs"
proof -
  have c: "concat (map (\<lambda>x. [x]) xs) = xs" by (induction xs) simp_all
  have "map (\<lambda>s. xs ! s) [0..<length xs] = xs" by (rule map_nth)
  then show ?thesis by (simp add: column2_def from_rows_def at2_def c)
qed

lemma concat_effect_single:
  "concat (map (effect_mat (single_draw tp) HUB_DUMMY_COLS) G)
           = map (\<lambda>x. [x]) (concat (map (\<lambda>g. map (effect_of tp g) g) G))"
  by (induction G) (simp_all add: effect_mat_single)

lemma out_tuples_expected:
  "out_tuples (expected_out (single_draw tp) ''OriginAirportID'' HUB_DUMMY_COLS G)
           = concat (map (group_tuples tp) G)"
proof -
  have col: "column2 (effect (expected_out (single_draw tp) ''OriginAirportID''
                        HUB_DUMMY_COLS G)) 0
               = concat (map (\<lambda>g. map (effect_of tp g) g) G)"
    using column2_singletons [of "concat (map (\<lambda>g. map (effect_of tp g) g) G)"]
    by (simp add: expected_out_def concat_effect_single shape_single_draw)
  have z1: "zip (concat (map (map (\<lambda>r. r ''OriginAirportID'')) G))
                (concat (map (\<lambda>g. map (effect_of tp g) g) G))
              = concat (map (\<lambda>g. map (\<lambda>r. (r ''OriginAirportID'', effect_of tp g r)) g) G)"
    by (subst zip_concat_map) (simp_all add: zip_map_same)
  have z2: "zip (concat (map (map (\<lambda>r. r ''AirportHubSize'')) G))
                (concat (map (\<lambda>g. map (\<lambda>r. (r ''OriginAirportID'', effect_of tp g r)) g) G))
              = concat (map (\<lambda>g. map (\<lambda>r. (r ''AirportHubSize'', r ''OriginAirportID'',
                                              effect_of tp g r)) g) G)"
    by (subst zip_concat_map) (simp_all add: zip_map_same)
  have z3: "zip (concat (map (map (\<lambda>r. r ''MarketShare'')) G))
                (concat (map (\<lambda>g. map (\<lambda>r. (r ''AirportHubSize'', r ''OriginAirportID'',
                                              effect_of tp g r)) g) G))
              = concat (map (\<lambda>g. map (\<lambda>r. (r ''MarketShare'', r ''AirportHubSize'',
                                              r ''OriginAirportID'', effect_of tp g r)) g) G)"
    by (subst zip_concat_map) (simp_all add: zip_map_same)
  have z4: "zip (concat (map (map (\<lambda>r. r ''MonthlyFlights'')) G))
                (concat (map (\<lambda>g. map (\<lambda>r. (r ''MarketShare'', r ''AirportHubSize'',
                                              r ''OriginAirportID'', effect_of tp g r)) g) G))
              = concat (map (group_tuples tp) G)"
    unfolding group_tuples_def
    by (subst zip_concat_map) (simp_all add: zip_map_same)
  have fields: "monthly_flights (expected_out (single_draw tp) ''OriginAirportID''
                   HUB_DUMMY_COLS G) = concat (map (map (\<lambda>r. r ''MonthlyFlights'')) G)"
    "market_share (expected_out (single_draw tp) ''OriginAirportID''
                   HUB_DUMMY_COLS G) = concat (map (map (\<lambda>r. r ''MarketShare'')) G)"
    "airport_hub_size (expected_out (single_draw tp) ''OriginAirportID''
                   HUB_DUMMY_COLS G) = concat (map (map (\<lambda>r. r ''AirportHubSize'')) G)"
    "group_id_first_key (expected_out (single_draw tp) ''OriginAirportID''
                   HUB_DUMMY_COLS G) = concat (map (map (\<lambda>r. r ''OriginAirportID'')) G)"
    by (simp_all add: expected_out_def)
  show ?thesis
    unfolding out_tuples_def fields col z1 z2 z3 z4 ..
qed

lemma obs_tuples_true:
  "map obs_tuple (concat (map (\<lambda>g. map (true_row_of tp g) g) G))
     = concat (map (group_tuples tp) G)"
  by (induction G)
    (simp_all add: group_tuples_def obs_tuple_def effect_of_def true_row_of_def Let_def comp_def)

lemma effects_true:
  "map tr_effect (concat (map (\<lambda>g. map (true_row_of tp g) g) G))
     = concat (map (\<lambda>g. map (effect_of tp g) g) G)"
  by (induction G) (simp_all add: effect_of_def comp_def)

lemma first_seen_props: "distinct (first_seen xs)" "set (first_seen xs) = set xs"
  by (simp_all add: first_seen_def)

lemma mset_groupby_unsorted:
  "mset (groupby_unsorted ks rs) = mset (groupby_sorted ks rs)"
proof -
  have "mset (first_seen (map (group_key ks) rs)) = mset (sort (remdups (map (group_key ks) rs)))"
    by (subst set_eq_iff_mset_eq_distinct [symmetric]) (simp_all add: first_seen_props)
  then show ?thesis
    by (simp add: groupby_unsorted_def groupby_sorted_def groups_of_def
          del: mset_sort)
qed

lemma groupby_unsorted_sorted:
  assumes "sorted (first_seen (map (group_key ks) rs))"
  shows "groupby_unsorted ks rs = groupby_sorted ks rs"
proof -
  have "first_seen (map (group_key ks) rs) = sort (remdups (map (group_key ks) rs))"
    using assms by (intro sorted_distinct_set_unique) (simp_all add: first_seen_props)
  then show ?thesis by (simp add: groupby_unsorted_def groupby_sorted_def)
qed

lemma mset_concat_map_perm:
  assumes "mset G = mset H"
  shows "mset (concat (map f G)) = mset (concat (map f H))"
proof -
  have "mset (concat (map f G)) = (\<Sum>g\<in>#mset G. mset (f g))" for G
    by (induction G) simp_all
  then show ?thesis using assms by simp
qed

lemma determine_effect_coeff_true_ok:
  assumes "length (flat true_params) = 4"
    and "required_columns GROUP_KEYS HUB_DUMMY_COLS \<union> {''AirlineHubSize''} \<subseteq> set (df_columns df)"
  shows "determine_effect_coeff_true true_params df
           = Inr (concat (map (\<lambda>g. map (true_row_of (flat true_params) g) g)
                    (eligible (groupby_unsorted GROUP_KEYS (df_rows df)))))"
proof -
  have k: "set [''OriginAirportID'', ''Year'', ''Month''] \<subseteq> set (df_columns df)"
    using assms(2) by (auto simp: required_columns_def GROUP_KEYS_def)
  have c: "true_columns_read \<subseteq> set (df_columns df)"
    using assms(2)
    by (auto simp: required_columns_def GROUP_KEYS_def HUB_DUMMY_COLS_def true_columns_read_def
          hub_cols_def)
  show ?thesis
    using assms(1) k
    by (simp add: determine_effect_coeff_true_def Let_def true_loop_eq [OF c] GROUP_KEYS_def)
qed

text \<open>
  C6, as amended. For a length-4 coefficient vector and a table with the columns both
  functions read, \<open>determine_effect_coeff_true\<close> and \<open>determine_effect_coeff\<close> on the
  single-row draw matrix both succeed and say the same about every observation: the
  observations' tuples (monthly flights, market share, airport hub size, airport id,
  effect) agree as multisets. The matrix variant lists the markets by ascending key, the
  point-estimate variant by first appearance in the table; when the first appearances are
  in ascending key order, the effect column equals the single column of the effect
  matrix position by position.
\<close>

theorem effect_true_agrees_up_to_market_order:
  assumes "length (flat true_params) = 4"
    and "required_columns GROUP_KEYS HUB_DUMMY_COLS \<union> {''AirlineHubSize''} \<subseteq> set (df_columns df)"
  shows "\<exists>rows out.
           determine_effect_coeff_true true_params df = Inr rows
         \<and> determine_effect_coeff df (single_draw (flat true_params)) GROUP_KEYS HUB_DUMMY_COLS
             = Inr out
         \<and> mset (map obs_tuple rows) = mset (out_tuples out)
         \<and> (sorted (first_seen (map (group_key GROUP_KEYS) (df_rows df)))
              \<longrightarrow> map tr_effect rows = column2 (effect out) 0)"
proof -
  let ?tp = "flat true_params"
  let ?Gu = "eligible (groupby_unsorted GROUP_KEYS (df_rows df))"
  let ?Gs = "eligible (groupby_sorted GROUP_KEYS (df_rows df))"
  let ?rows = "concat (map (\<lambda>g. map (true_row_of ?tp g) g) ?Gu)"
  let ?out = "expected_out (single_draw ?tp) ''OriginAirportID'' HUB_DUMMY_COLS ?Gs"
  have t: "determine_effect_coeff_true true_params df = Inr ?rows"
    by (rule determine_effect_coeff_true_ok [OF assms])
  have "determine_effect_coeff df (single_draw ?tp) GROUP_KEYS HUB_DUMMY_COLS
          = Inr (expected_out (single_draw ?tp) (hd GROUP_KEYS) HUB_DUMMY_COLS ?Gs)"
    using assms(2)
    using assms(1)
    by (intro determine_effect_coeff_ok)
      (simp_all add: shape_single_draw HUB_DUMMY_COLS_def GROUP_KEYS_def)
  then have m: "determine_effect_coeff df (single_draw ?tp) GROUP_KEYS HUB_DUMMY_COLS
                  = Inr ?out"
    by (simp add: GROUP_KEYS_def)
  have "mset ?Gu = mset ?Gs"
    by (simp add: eligible_def mset_groupby_unsorted)
  then have perm: "mset (map obs_tuple ?rows) = mset (out_tuples ?out)"
    unfolding obs_tuples_true out_tuples_expected
    by (rule mset_concat_map_perm)
  have pos: "map tr_effect ?rows = column2 (effect ?out) 0"
    if "sorted (first_seen (map (group_key GROUP_KEYS) (df_rows df)))"
  proof -
    have "column2 (effect ?out) 0 = concat (map (\<lambda>g. map (effect_of ?tp g) g) ?Gs)"
      using column2_singletons [of "concat (map (\<lambda>g. map (effect_of ?tp g) g) ?Gs)"]
      by (simp add: expected_out_def concat_effect_single shape_single_draw)
    then show ?thesis
      by (simp add: effects_true groupby_unsorted_sorted [OF that])
  qed
  show ?thesis using t m perm pos by blast
qed

lemma example_keys:
  "group_key GROUP_KEYS row_a1 = [7, 2020, 3]" "group_key GROUP_KEYS row_a2 = [7, 2020, 3]"
  "group_key GROUP_KEYS row_b1 = [3, 2020, 3]"
  "group_key GROUP_KEYS row_c1 = [5, 2020, 3]" "group_key GROUP_KEYS row_c2 = [5, 2020, 3]"
  by (simp_all add: group_key_def GROUP_KEYS_def row_a1_def row_a2_def row_b1_def row_c1_def
        row_c2_def mk_row_def)

lemma example_columns:
  "required_columns GROUP_KEYS HUB_DUMMY_COLS \<union> {''AirlineHubSize''} \<subseteq> set table_columns"
  by (simp add: required_columns_def GROUP_KEYS_def HUB_DUMMY_COLS_def table_columns_def)

lemma example_effects:
  "effect_of [1, 2, 3, 4] [row_a1, row_a2] row_a1 = 24 / 125"
  "effect_of [1, 2, 3, 4] [row_a1, row_a2] row_a2 = - (54 / 125)"
  "effect_of [1, 2, 3, 4] [row_c1, row_c2] row_c1 = 0"
  "effect_of [1, 2, 3, 4] [row_c1, row_c2] row_c2 = - (1 / 2)"
  by (simp_all add: effect_of_def true_row_of_def total_hub_market_share_def hub_cols_def
        dot_def row_a1_def row_a2_def row_c1_def row_c2_def mk_row_def)

lemma example_groups:
  "groupby_unsorted GROUP_KEYS [row_a1, row_a2, row_c1, row_c2]
     = [[row_a1, row_a2], [row_c1, row_c2]]"
  "groupby_sorted GROUP_KEYS [row_a1, row_a2, row_c1, row_c2]
     = [[row_c1, row_c2], [row_a1, row_a2]]"
  "groupby_unsorted GROUP_KEYS [row_c1, row_c2, row_a1, row_a2]
     = [[row_c1, row_c2], [row_a1, row_a2]]"
  by (simp_all add: groupby_unsorted_def groupby_sorted_def groups_of_def first_seen_def
        example_keys)

text \<open>
  C6 as stated fails when a market with the larger key comes first in the table: the two
  effect columns hold the same values in different orders.
\<close>

theorem effect_true_order_counterexample:
  "effect_column_true (NDArray [4] [1, 2, 3, 4]) table_descending
     = Inr [24 / 125, - (54 / 125), 0, - (1 / 2)]
   \<and> effect_column_matrix [1, 2, 3, 4] table_descending
     = Inr [0, - (1 / 2), 24 / 125, - (54 / 125)]
   \<and> effect_column_true (NDArray [4] [1, 2, 3, 4]) table_descending
     \<noteq> effect_column_matrix [1, 2, 3, 4] table_descending"
proof -
  have cols: "required_columns GROUP_KEYS HUB_DUMMY_COLS \<union> {''AirlineHubSize''}
                \<subseteq> set (df_columns table_descending)"
    using example_columns by (simp add: table_descending_def)
  have len: "length (flat (NDArray [4] [1, 2, 3, 4])) = 4" by simp
  have t: "effect_column_true (NDArray [4] [1, 2, 3, 4]) table_descending
             = Inr [24 / 125, - (54 / 125), 0, - (1 / 2)]"
    unfolding effect_column_true_def determine_effect_coeff_true_ok [OF len cols]
    by (simp add: table_descending_def example_groups eligible_def
          example_effects [unfolded effect_of_def])
  have ok: "determine_effect_coeff table_descending (single_draw [1, 2, 3, 4]) GROUP_KEYS
              HUB_DUMMY_COLS
            = Inr (expected_out (single_draw [1, 2, 3, 4]) (hd GROUP_KEYS) HUB_DUMMY_COLS
                     (eligible (groupby_sorted GROUP_KEYS (df_rows table_descending))))"
    using cols
    by (intro determine_effect_coeff_ok)
      (simp_all add: shape_single_draw HUB_DUMMY_COLS_def GROUP_KEYS_def)
  have col: "column2 (effect (expected_out (single_draw [1, 2, 3, 4]) (hd GROUP_KEYS)
                HUB_DUMMY_COLS [[row_c1, row_c2], [row_a1, row_a2]])) 0
              = [0, - (1 / 2), 24 / 125, - (54 / 125)]"
    using column2_singletons [of "[0, - (1 / 2), 24 / 125, - (54 / 125)]"]
    by (simp add: expected_out_def effect_mat_single shape_single_draw example_effects)
  have m: "effect_column_matrix [1, 2, 3, 4] table_descending
             = Inr [0, - (1 / 2), 24 / 125, - (54 / 125)]"
    unfolding effect_column_matrix_def ok
    using col by (simp add: table_descending_def example_groups eligible_def)
  show ?thesis unfolding t m by simp
qed

theorem effect_true_agrees_up_to_market_order_witness:
  "sorted (first_seen (map (group_key GROUP_KEYS) (df_rows table_ascending)))
   \<and> (\<exists>rows out.
         determine_effect_coeff_true (NDArray [4] [1, 2, 3, 4]) table_ascending = Inr rows
       \<and> determine_effect_coeff table_ascending (single_draw [1, 2, 3, 4])
            GROUP_KEYS HUB_DUMMY_COLS = Inr out
       \<and> mset (map obs_tuple rows) = mset (out_tuples out)
       \<and> map tr_effect rows = column2 (effect out) 0)"
proof -
  have cols: "required_columns GROUP_KEYS HUB_DUMMY_COLS \<union> {''AirlineHubSize''}
                \<subseteq> set (df_columns table_ascending)"
    using example_columns by (simp add: table_ascending_def)
  have len: "length (flat (NDArray [4] [1, 2, 3, 4])) = 4" by simp
  have srt: "sorted (first_seen (map (group_key GROUP_KEYS) (df_rows table_ascending)))"
    by (simp add: table_ascending_def first_seen_def example_keys)
  from effect_true_agrees_up_to_market_order [OF len cols] srt
  show ?thesis by auto
qed

section \<open>Properties of the coefficient sampler\<close>

lemma concat_replicate_nth:
  "s < length xs \<Longrightarrow> j < k \<Longrightarrow> concat (map (replicate k) xs) ! (s * k + j) = xs ! s"
proof (induction xs arbitrary: s)
  case Nil
  then show ?case by simp
next
  case (Cons x xs)
  show ?case
  proof (cases s)
    case 0
    with Cons.prems show ?thesis by (simp add: nth_append)
  next
    case (Suc s')
    with Cons.prems have "s' < length xs" by simp
    from Cons.IH [OF this Cons.prems(2)] Suc show ?thesis
      by (simp add: nth_append add.assoc)
  qed
qed

lemma read_mu_basic:
  assumes "set basic_reg_vars \<subseteq> set (df_columns coef_df)" and "df_rows coef_df = r0 # rest"
  shows "read_mu coef_df basic_reg_vars = Inr [r0 ''hhiorigin'', r0 ''hhidest'']"
  using assms by (simp add: read_mu_def basic_reg_vars_def)

lemma read_sigma_ok:
  assumes "cov_index cov_df = Some labels" and "set vars \<subseteq> set labels"
    and "set vars \<subseteq> set (cov_columns cov_df)"
  shows "read_sigma cov_df vars = Inr (map (\<lambda>i. map (\<lambda>j. cov_cell cov_df i j) vars) vars)"
  using assms by (simp add: read_sigma_def)

text \<open>
  C5. With \<open>num_sims > 0\<close>, a coefficient file that has the columns \<open>hhiorigin\<close> and
  \<open>hhidest\<close> and a first row, a covariance file labelled with both names, and a
  generator that delivers \<open>num_sims\<close> joint draws of two components for the seed,
  \<open>basic_random_sample\<close> returns a well-formed \<open>(num_sims, 4)\<close> matrix in which every
  entry of row \<open>s\<close> is the sum of the two components of draw \<open>s\<close> (so the four columns
  are identical), and a \<open>true_params\<close> vector of four entries, each the sum of the two
  point estimates.
\<close>

theorem basic_random_sample_replicates:
  assumes "0 < num_sims"
    and "set basic_reg_vars \<subseteq> set (df_columns coef_df)" and "df_rows coef_df = r0 # rest"
    and "cov_index cov_df = Some labels" and "set basic_reg_vars \<subseteq> set labels"
    and "set basic_reg_vars \<subseteq> set (cov_columns cov_df)"
    and "default_rng np entropy seed = Inr rng"
    and "multivariate_normal np rng [r0 ''hhiorigin'', r0 ''hhidest'']
           (map (\<lambda>i. map (\<lambda>j. cov_cell cov_df i j) basic_reg_vars) basic_reg_vars)
           (nat num_sims) SVD = Inr draws"
    and "length draws = nat num_sims" and "\<forall>d \<in> set draws. length d = 2"
  shows "\<exists>random_sample true_params.
           basic_random_sample np entropy coef_df cov_df num_sims seed
             = Inr (random_sample, true_params)
         \<and> shape random_sample = [nat num_sims, 4]
         \<and> wf_ndarray random_sample
         \<and> (\<forall>s < nat num_sims. \<forall>j < 4. at2 random_sample s j = draws ! s ! 0 + draws ! s ! 1)
         \<and> true_params = replicate 4 (r0 ''hhiorigin'' + r0 ''hhidest'')"
proof -
  let ?combined = "map sum_list draws"
  let ?rs = "from_rows n_hub_sizes (map (replicate n_hub_sizes) ?combined)"
  let ?tp = "replicate n_hub_sizes (sum_list [r0 ''hhiorigin'', r0 ''hhidest''])"
  have run: "basic_random_sample np entropy coef_df cov_df num_sims seed = Inr (?rs, ?tp)"
    using assms(1,7,8)
    by (simp add: basic_random_sample_def read_mu_basic [OF assms(2,3)]
          read_sigma_ok [OF assms(4,5,6)])
  have sh: "shape ?rs = [nat num_sims, 4]"
    using assms(9) by (simp add: from_rows_def n_hub_sizes_def)
  have wf: "wf_ndarray ?rs"
    using assms(9)
    by (simp add: wf_ndarray_def from_rows_def n_hub_sizes_def length_concat comp_def
          sum_list_triv)
  have two: "sum_list (draws ! s) = draws ! s ! 0 + draws ! s ! 1" if "s < nat num_sims" for s
  proof -
    from that assms(9,10) have "length (draws ! s) = 2" by simp
    then obtain a b where "draws ! s = [a, b]"
      by (cases "draws ! s"; cases "tl (draws ! s)") auto
    then show ?thesis by simp
  qed
  have ent: "at2 ?rs s j = draws ! s ! 0 + draws ! s ! 1" if "s < nat num_sims" "j < 4" for s j
  proof -
    have "at2 ?rs s j = concat (map (replicate 4) ?combined) ! (s * 4 + j)"
      by (simp add: at2_def from_rows_def n_hub_sizes_def)
    also have "\<dots> = ?combined ! s"
      using that assms(9) by (intro concat_replicate_nth) simp_all
    also have "\<dots> = draws ! s ! 0 + draws ! s ! 1"
      using that assms(9) two by simp
    finally show ?thesis .
  qed
  have tp: "?tp = replicate 4 (r0 ''hhiorigin'' + r0 ''hhidest'')"
    by (simp add: n_hub_sizes_def)
  show ?thesis using run sh wf ent tp by blast
qed

lemma example_files:
  "set basic_reg_vars \<subseteq> set (df_columns coef_file)"
  "df_rows coef_file = [mk_row [(''hhiorigin'', 1.5), (''hhidest'', 0.5), (''const'', 3)]]"
  "cov_index cov_file = Some [''hhiorigin'', ''hhidest'', ''const'']"
  "set basic_reg_vars \<subseteq> set [''hhiorigin'', ''hhidest'', ''const'']"
  "set basic_reg_vars \<subseteq> set (cov_columns cov_file)"
  by (simp_all add: basic_reg_vars_def coef_file_def cov_file_def)

theorem basic_random_sample_replicates_witness:
  "\<exists>random_sample true_params.
      basic_random_sample shift_sampler 0 coef_file cov_file 2 (Some 1)
        = Inr (random_sample, true_params)
    \<and> shape random_sample = [2, 4]
    \<and> at2 random_sample 1 3 = 4
    \<and> true_params = [2, 2, 2, 2]"
proof -
  let ?r0 = "mk_row [(''hhiorigin'', 1.5), (''hhidest'', 0.5), (''const'', 3)]"
  let ?draws = "[[2.5, 1.5], [2.5, 1.5]] :: real list list"
  have n: "(0::int) < 2" by simp
  have rng: "default_rng shift_sampler 0 (Some 1) = Inr 1"
    by (simp add: default_rng_def shift_sampler_def)
  have mvn: "multivariate_normal shift_sampler 1 [?r0 ''hhiorigin'', ?r0 ''hhidest'']
               (map (\<lambda>i. map (\<lambda>j. cov_cell cov_file i j) basic_reg_vars) basic_reg_vars)
               (nat 2) SVD = Inr ?draws"
    by (simp add: shift_sampler_def mk_row_def numeral_2_eq_2)
  have len: "length ?draws = nat 2" "\<forall>d \<in> set ?draws. length d = 2" by simp_all
  from basic_random_sample_replicates
         [OF n example_files(1,2,3,4,5) rng mvn len]
  obtain random_sample true_params where
    run: "basic_random_sample shift_sampler 0 coef_file cov_file 2 (Some 1)
            = Inr (random_sample, true_params)"
    and sh: "shape random_sample = [nat 2, 4]"
    and ent: "\<forall>s < nat 2. \<forall>j < 4. at2 random_sample s j = ?draws ! s ! 0 + ?draws ! s ! 1"
    and tp: "true_params = replicate 4 (?r0 ''hhiorigin'' + ?r0 ''hhidest'')"
    by blast
  from ent have "at2 random_sample 1 3 = 4" by simp
  moreover from tp have "true_params = [2, 2, 2, 2]"
    by (simp add: mk_row_def numeral_eq_Suc)
  ultimately show ?thesis using run sh by simp
qed

end
